theory Spec2Isabelle
  imports Complex_Main "HOL-Library.AList"
begin

section \<open>The WebSocket proxy manager: data model\<close>

text \<open>
  The module keeps its session in module-level variables and talks to three browser
  facilities: WebSocket objects, timers and \<open>fetch\<close>. The model makes the session and
  the part of the browser the module can observe one record, and writes every call out of
  the module (observer callback, console, socket, timers) to a trace of effects.
\<close>

datatype WebSocketProxyStatus = IDLE | CONNECTING | CONNECTED | RECONNECTING | DISCONNECTED | ERROR

definition PING_INTERVAL_MS :: nat where "PING_INTERVAL_MS = 25 * 1000"
definition RECONNECT_INITIAL_DELAY_MS :: nat where "RECONNECT_INITIAL_DELAY_MS = 1000"
definition RECONNECT_MAX_DELAY_MS :: nat where "RECONNECT_MAX_DELAY_MS = 30 * 1000"
definition RECONNECT_JITTER_MS :: nat where "RECONNECT_JITTER_MS = 500"

definition WS_CONNECTING :: nat where "WS_CONNECTING = 0"
definition WS_OPEN :: nat where "WS_OPEN = 1"
definition WS_CLOSING :: nat where "WS_CLOSING = 2"
definition WS_CLOSED :: nat where "WS_CLOSED = 3"

definition WEBSOCKET_PROXY_URL :: string where
  "WEBSOCKET_PROXY_URL = ''wss://lbls888-cliproxyapi.hf.space/v1/ws''"
definition BASE_WEBSOCKET_URL :: string where
  "BASE_WEBSOCKET_URL = WEBSOCKET_PROXY_URL"

text \<open>
  Text that comes out of the platform's UTF-8 decoder is kept as a list of Unicode code
  points (a \<open>char\<close> of HOL has eight bits only); identifiers, URLs, header fields and
  status details are \<open>string\<close>s.
\<close>

type_synonym jstext = "nat list"
type_synonym headers = "(string \<times> string) list"

text \<open>The frames the agent sends (\<open>WSClientSentMessage\<close>), by their \<open>type\<close> field.\<close>

datatype WSClientSentMessage =
    HttpResponse string nat headers jstext
  | StreamStart string nat headers
  | StreamChunk string jstext
  | StreamEnd string
  | ErrorMessage string string string "(nat \<times> headers \<times> jstext) option"
  | Ping

datatype effect =
    StatusCallback WebSocketProxyStatus "string option"
  | ConsoleLog string
  | ConsoleWarn string
  | ConsoleError string
  | NewWebSocket string
  | SocketSend nat WSClientSentMessage
  | SocketClose nat nat string
  | SetTimeout nat nat rat
  | ClearTimeout nat
  | SetInterval nat nat
  | ClearInterval nat

text \<open>
  The module variables come first, under the names of the source
  (\<open>onStatusChangeCallback\<close> records whether an observer is registered). Then the browser:
  \<open>readyStates\<close> holds the \<open>readyState\<close> of every WebSocket constructed so far, a socket's
  handle being its index; \<open>timeouts\<close> and \<open>intervals\<close> are the identifiers of the pending
  \<open>setTimeout\<close> timers and of the running \<open>setInterval\<close> timers; \<open>nextTimerId\<close> is the
  next identifier the browser hands out. \<open>effects\<close> is the trace, oldest first.
  \<open>SetTimeout i b j\<close> records a timer \<open>i\<close> whose delay is \<open>b + j\<close>, the two summands of
  \<open>currentReconnectDelay + Math.random() * RECONNECT_JITTER_MS\<close> kept apart.
\<close>

record session =
  socket :: "nat option"
  currentStatus :: WebSocketProxyStatus
  onStatusChangeCallback :: bool
  pingIntervalId :: "nat option"
  reconnectTimeoutId :: "nat option"
  currentReconnectDelay :: nat
  explicitClose :: bool
  currentJwtToken :: "string option"
  readyStates :: "nat list"
  timeouts :: "nat list"
  intervals :: "nat list"
  nextTimerId :: nat
  effects :: "effect list"

definition init :: session where
  "init = \<lparr> socket = None, currentStatus = IDLE, onStatusChangeCallback = False,
            pingIntervalId = None, reconnectTimeoutId = None,
            currentReconnectDelay = RECONNECT_INITIAL_DELAY_MS, explicitClose = False,
            currentJwtToken = None, readyStates = [], timeouts = [], intervals = [],
            nextTimerId = 1, effects = [] \<rparr>"

record CloseEvent =
  code :: nat
  reason :: string

text \<open>What \<open>new WebSocket(wsUrl)\<close> does: it returns an object or throws.\<close>

datatype ctor_result = Constructed | Throws string

subsection \<open>JavaScript primitives\<close>

text \<open>A timer identifier is falsy when it is \<open>null\<close> or \<open>0\<close>, a string when it is
  \<open>null\<close>, \<open>undefined\<close> or empty.\<close>

definition truthyId :: "nat option \<Rightarrow> bool" where
  "truthyId x = (case x of None \<Rightarrow> False | Some n \<Rightarrow> n \<noteq> 0)"

definition truthyStr :: "string option \<Rightarrow> bool" where
  "truthyStr x = (case x of None \<Rightarrow> False | Some s \<Rightarrow> s \<noteq> [])"

text \<open>A non-negative integer in a template literal.\<close>

fun showNat :: "nat \<Rightarrow> string" where
  "showNat n = (if n < 10 then [''0123456789'' ! n]
                else showNat (n div 10) @ [''0123456789'' ! (n mod 10)])"

declare showNat.simps [simp del]

text \<open>\<open>Math.round\<close> on a non-negative number.\<close>

definition mathRound :: "rat \<Rightarrow> nat" where
  "mathRound x = nat \<lfloor>x + 1 / 2\<rfloor>"

definition emit :: "effect \<Rightarrow> session \<Rightarrow> session" where
  "emit e st = st\<lparr>effects := effects st @ [e]\<rparr>"

text \<open>The \<open>readyState\<close> of a socket the module holds; a handle is always one that
  \<open>new WebSocket\<close> returned.\<close>

definition readyState :: "session \<Rightarrow> nat \<Rightarrow> nat" where
  "readyState st h = (if h < length (readyStates st) then readyStates st ! h else WS_CLOSED)"

definition newWebSocket :: "string \<Rightarrow> session \<Rightarrow> session" where
  "newWebSocket wsUrl st =
     (emit (NewWebSocket wsUrl) st)\<lparr>socket := Some (length (readyStates st)),
                                    readyStates := readyStates st @ [WS_CONNECTING]\<rparr>"

definition socketClose :: "nat \<Rightarrow> nat \<Rightarrow> string \<Rightarrow> session \<Rightarrow> session" where
  "socketClose h c r st =
     (emit (SocketClose h c r) st)\<lparr>readyStates := (readyStates st)[h := WS_CLOSING]\<rparr>"

definition clearTimeout :: "nat \<Rightarrow> session \<Rightarrow> session" where
  "clearTimeout i st = (emit (ClearTimeout i) st)\<lparr>timeouts := removeAll i (timeouts st)\<rparr>"

definition clearInterval :: "nat \<Rightarrow> session \<Rightarrow> session" where
  "clearInterval i st = (emit (ClearInterval i) st)\<lparr>intervals := removeAll i (intervals st)\<rparr>"

definition setTimeout :: "nat \<Rightarrow> rat \<Rightarrow> session \<Rightarrow> session" where
  "setTimeout b j st =
     (emit (SetTimeout (nextTimerId st) b j) st)\<lparr>timeouts := timeouts st @ [nextTimerId st],
                                                 nextTimerId := Suc (nextTimerId st)\<rparr>"

definition setInterval :: "nat \<Rightarrow> session \<Rightarrow> session" where
  "setInterval p st =
     (emit (SetInterval (nextTimerId st) p) st)\<lparr>intervals := intervals st @ [nextTimerId st],
                                                nextTimerId := Suc (nextTimerId st)\<rparr>"

section \<open>The connection state machine\<close>

definition updateStatus :: "WebSocketProxyStatus \<Rightarrow> string option \<Rightarrow> session \<Rightarrow> session" where
  "updateStatus newStatus details st =
     (if currentStatus st = newStatus \<and> \<not> truthyStr details then st
      else emit (ConsoleLog ''WebSocket Proxy Status'')
             ((if onStatusChangeCallback st then emit (StatusCallback newStatus details) else (\<lambda>s. s))
                (st\<lparr>currentStatus := newStatus\<rparr>)))"

text \<open>The frames are plain objects of strings and numbers, which \<open>JSON.stringify\<close>
  serialises without throwing: the \<open>catch\<close> of \<open>sendToServer\<close> is never entered.\<close>

definition sendToServer :: "WSClientSentMessage \<Rightarrow> session \<Rightarrow> session" where
  "sendToServer message st =
     (case socket st of
        Some h \<Rightarrow>
          if readyState st h = WS_OPEN then emit (SocketSend h message) st
          else emit (ConsoleWarn ''WebSocket Proxy: Cannot send message, socket not open.'') st
      | None \<Rightarrow> emit (ConsoleWarn ''WebSocket Proxy: Cannot send message, socket not open.'') st)"

definition stopPing :: "session \<Rightarrow> session" where
  "stopPing st =
     (if truthyId (pingIntervalId st)
      then (clearInterval (the (pingIntervalId st)) st)\<lparr>pingIntervalId := None\<rparr>
      else st)"

definition startPing :: "session \<Rightarrow> session" where
  "startPing st =
     (let st1 = stopPing st
      in (setInterval PING_INTERVAL_MS st1)\<lparr>pingIntervalId := Some (nextTimerId st1)\<rparr>)"

text \<open>The body of the interval callback.\<close>

definition pingCallback :: "session \<Rightarrow> session" where
  "pingCallback st = sendToServer Ping st"

definition clearReconnect :: "session \<Rightarrow> session" where
  "clearReconnect st =
     (if truthyId (reconnectTimeoutId st)
      then (clearTimeout (the (reconnectTimeoutId st)) st)\<lparr>reconnectTimeoutId := None\<rparr>
      else st)"

definition onSocketOpen :: "session \<Rightarrow> session" where
  "onSocketOpen st =
     startPing (clearReconnect
       ((updateStatus CONNECTED None st)\<lparr>currentReconnectDelay := RECONNECT_INITIAL_DELAY_MS\<rparr>))"

text \<open>
  \<open>scheduleReconnect\<close> takes the value \<open>rnd\<close> that \<open>Math.random()\<close> returns when it is
  called. The timer's callback is \<open>reconnectCallback\<close> below.
\<close>

definition scheduleReconnect :: "rat \<Rightarrow> session \<Rightarrow> session" where
  "scheduleReconnect rnd st =
     (if explicitClose st \<or> \<not> truthyStr (currentJwtToken st)
      then updateStatus IDLE (Some ''Reconnection not attempted (explicit close or no token).'') st
      else
        let st1 = (if truthyId (reconnectTimeoutId st)
                   then clearTimeout (the (reconnectTimeoutId st)) st else st);
            jitter = rnd * of_nat RECONNECT_JITTER_MS;
            delayWithJitter = of_nat (currentReconnectDelay st1) + jitter;
            st2 = updateStatus RECONNECTING
                    (Some (''Attempting to reconnect in '' @ showNat (mathRound (delayWithJitter / 1000))
                           @ ''s...'')) st1;
            st3 = (setTimeout (currentReconnectDelay st2) jitter st2)
                    \<lparr>reconnectTimeoutId := Some (nextTimerId st2)\<rparr>
        in st3\<lparr>currentReconnectDelay := min (currentReconnectDelay st3 * 2) RECONNECT_MAX_DELAY_MS\<rparr>)"

text \<open>
  \<open>connect\<close> takes, besides the token (\<open>None\<close> for a missing one), what the constructor
  of the socket does and the value of \<open>Math.random()\<close>, should they be called.
\<close>

definition connect :: "ctor_result \<Rightarrow> rat \<Rightarrow> string option \<Rightarrow> session \<Rightarrow> session" where
  "connect ctor rnd jwtToken st =
     (if \<not> truthyStr jwtToken
      then updateStatus ERROR (Some ''JWT Token is required to connect.'') st
      else
        let st1 = st\<lparr>currentJwtToken := jwtToken\<rparr>
        in if (case socket st1 of None \<Rightarrow> False
               | Some h \<Rightarrow> readyState st1 h = WS_OPEN \<or> readyState st1 h = WS_CONNECTING)
           then emit (ConsoleLog ''WebSocket Proxy: Already connected or connecting.'') st1
           else
             let st2 = updateStatus CONNECTING None (st1\<lparr>explicitClose := False\<rparr>);
                 wsUrl = BASE_WEBSOCKET_URL @ ''?auth_token='' @ the jwtToken;
                 st3 = emit (ConsoleLog ''WebSocket Proxy: Attempting to connect'') st2
             in case ctor of
                  Throws msg \<Rightarrow>
                    scheduleReconnect rnd
                      (updateStatus ERROR (Some (''Failed to instantiate WebSocket: '' @ msg))
                         (emit (ConsoleError ''WebSocket Proxy: Instantiation error:'') st3))
                | Constructed \<Rightarrow> newWebSocket wsUrl st3)"

definition reconnectCallback :: "ctor_result \<Rightarrow> rat \<Rightarrow> session \<Rightarrow> session" where
  "reconnectCallback ctor rnd st =
     (let st1 = st\<lparr>reconnectTimeoutId := None\<rparr>
      in if truthyStr (currentJwtToken st1) then connect ctor rnd (currentJwtToken st1) st1
         else updateStatus IDLE (Some ''Reconnect aborted: JWT token became unavailable.'') st1)"

definition onSocketClose :: "CloseEvent \<Rightarrow> rat \<Rightarrow> session \<Rightarrow> session" where
  "onSocketClose event rnd st =
     (let st1 = stopPing st
      in if truthyId (reconnectTimeoutId st1) then st1
         else
           (if explicitClose st1
            then (updateStatus IDLE
                    (Some (''Connection closed by client. Code: '' @ showNat (code event))) st1)
                   \<lparr>explicitClose := False\<rparr>
            else scheduleReconnect rnd
                   (updateStatus DISCONNECTED
                      (Some (''Connection closed. Code: '' @ showNat (code event) @ '', Reason: ''
                             @ (if reason event = [] then ''N/A'' else reason event))) st1))
           \<lparr>socket := None\<rparr>)"

definition disconnect :: "rat \<Rightarrow> session \<Rightarrow> session" where
  "disconnect rnd st =
     (let st1 = stopPing (clearReconnect (st\<lparr>explicitClose := True, currentJwtToken := None\<rparr>));
          st2 = (case socket st1 of
                   Some h \<Rightarrow>
                     if readyState st1 h = WS_OPEN \<or> readyState st1 h = WS_CONNECTING
                     then socketClose h 1000 ''Client initiated disconnect'' st1
                     else onSocketClose
                            \<lparr>code = 1000, reason = ''Client initiated disconnect on non-open socket''\<rparr>
                            rnd st1
                 | None \<Rightarrow> updateStatus IDLE (Some ''Disconnected (no active socket).'') st1)
      in st2\<lparr>socket := None\<rparr>)"

definition setOnStatusChange :: "bool \<Rightarrow> session \<Rightarrow> session" where
  "setOnStatusChange callback st =
     (let st1 = st\<lparr>onStatusChangeCallback := callback\<rparr>
      in if callback then emit (StatusCallback (currentStatus st1) None) st1 else st1)"


section \<open>Inbound frames\<close>

text \<open>
  The inbound commands (\<open>WSHttpRequestMessage\<close>, declared in the types module) carry
  an identifier and a payload with method, URL, headers and an optional body.
\<close>

record WSHttpRequestPayload =
  method' :: string
  url :: string
  headers :: headers
  body :: "string option"

record WSHttpRequestMessage =
  id' :: string
  payload :: WSHttpRequestPayload

text \<open>
  What \<open>JSON.parse(event.data)\<close> and the read of \<open>message.type\<close> give: a syntax error,
  the value \<open>null\<close> (whose \<open>type\<close> cannot be read), or a value with its \<open>type\<close> field
  (\<open>None\<close> when the field is missing or is not a string) and its reading as a
  \<open>WSHttpRequestMessage\<close> (\<open>None\<close> when it has no payload to read).
\<close>

datatype parsed_frame =
    JsonSyntaxError
  | JsonNull
  | JsonMessage "string option" "WSHttpRequestMessage option"

definition frameType :: "parsed_frame \<Rightarrow> string option" where
  "frameType f = (case f of JsonMessage t r \<Rightarrow> t | _ \<Rightarrow> None)"

text \<open>
  \<open>onSocketMessage\<close> returns the session and the command that \<open>handleHttpRequest\<close>
  executes, if any. The handler is asynchronous: it touches the session only through its
  later calls of \<open>sendToServer\<close>, and a rejection of its promise does not reach the
  \<open>catch\<close> of \<open>onSocketMessage\<close>. Called on a message of type \<open>http_request\<close> that has
  no payload, it fails at its first line and executes nothing.
\<close>

definition onSocketMessage :: "parsed_frame \<Rightarrow> session \<Rightarrow> session \<times> WSHttpRequestMessage option" where
  "onSocketMessage frame st =
     (case frame of
        JsonSyntaxError \<Rightarrow>
          (emit (ConsoleError ''WebSocket Proxy: Error parsing message from server or handling it:'') st, None)
      | JsonNull \<Rightarrow>
          (emit (ConsoleError ''WebSocket Proxy: Error parsing message from server or handling it:'') st, None)
      | JsonMessage t request \<Rightarrow>
          (if t = Some ''http_request'' then (st, request)
           else if t = Some ''pong'' then (st, None)
           else (emit (ConsoleWarn ''WebSocket Proxy: Received unknown message type'') st, None)))"

definition onSocketError :: "session \<Rightarrow> session" where
  "onSocketError st = emit (ConsoleError ''WebSocket Proxy: Socket error:'') st"

section \<open>Runs of the state machine\<close>

text \<open>
  An event is a call of the exported interface, something a socket or a timer of the
  browser does, or a send of a command in flight. The browser delivers \<open>open\<close> to a socket
  that is connecting, \<open>close\<close> to one not yet closed, messages to one that is open or
  closing, and fires only timers that are pending. The observer's callback does not call
  back into the module; a send of a command in flight can come between any two events.
\<close>

datatype event =
    Connect ctor_result rat "string option"
  | Disconnect rat
  | SetOnStatusChange bool
  | SocketOpens nat
  | SocketStartsClosing nat
  | SocketCloses nat CloseEvent rat
  | SocketMessage nat parsed_frame
  | SocketError nat
  | TimeoutFires nat ctor_result rat
  | IntervalFires nat
  | BridgeSends WSClientSentMessage

fun step :: "event \<Rightarrow> session \<Rightarrow> session" where
  "step (Connect ctor rnd jwtToken) st = connect ctor rnd jwtToken st"
| "step (Disconnect rnd) st = disconnect rnd st"
| "step (SetOnStatusChange callback) st = setOnStatusChange callback st"
| "step (SocketOpens h) st =
     (if readyState st h = WS_CONNECTING
      then onSocketOpen (st\<lparr>readyStates := (readyStates st)[h := WS_OPEN]\<rparr>) else st)"
| "step (SocketStartsClosing h) st =
     (if readyState st h = WS_OPEN
      then st\<lparr>readyStates := (readyStates st)[h := WS_CLOSING]\<rparr> else st)"
| "step (SocketCloses h event rnd) st =
     (if readyState st h \<noteq> WS_CLOSED
      then onSocketClose event rnd (st\<lparr>readyStates := (readyStates st)[h := WS_CLOSED]\<rparr>) else st)"
| "step (SocketMessage h frame) st =
     (if readyState st h = WS_OPEN \<or> readyState st h = WS_CLOSING
      then fst (onSocketMessage frame st) else st)"
| "step (SocketError h) st =
     (if h < length (readyStates st) then onSocketError st else st)"
| "step (TimeoutFires i ctor rnd) st =
     (if i \<in> set (timeouts st)
      then reconnectCallback ctor rnd (st\<lparr>timeouts := removeAll i (timeouts st)\<rparr>) else st)"
| "step (IntervalFires i) st =
     (if i \<in> set (intervals st) then pingCallback st else st)"
| "step (BridgeSends message) st = sendToServer message st"

definition run :: "event list \<Rightarrow> session \<Rightarrow> session" where
  "run evs st = fold step evs st"

text \<open>The base delays of the reconnect timers set so far, oldest first.\<close>

fun scheduledBases :: "effect list \<Rightarrow> nat list" where
  "scheduledBases [] = []"
| "scheduledBases (SetTimeout i b j # es) = b # scheduledBases es"
| "scheduledBases (e # es) = scheduledBases es"

definition backoff :: "nat \<Rightarrow> nat" where
  "backoff k = min (RECONNECT_INITIAL_DELAY_MS * 2 ^ k) RECONNECT_MAX_DELAY_MS"

fun isSocketOpens :: "event \<Rightarrow> bool" where
  "isSocketOpens (SocketOpens h) = True"
| "isSocketOpens e = False"


section \<open>The HTTP execution bridge\<close>

subsection \<open>Platform interfaces\<close>

text \<open>
  \<open>handleHttpRequest\<close> uses the platform's \<open>URL\<close>, \<open>TextDecoder\<close> and \<open>fetch\<close>. The
  bridge is modelled over any platform: a record of the operations the source calls whose
  results the platform decides. \<open>newURL\<close> is the constructor \<open>new URL(url)\<close>, \<open>None\<close>
  where it throws. The decoder has a state of any type \<open>'d\<close>: \<open>decodeStream\<close> is
  \<open>decoder.decode(value, {stream: true})\<close> and \<open>decodeFinal\<close> is the closing
  \<open>decoder.decode()\<close>.

  A URL object is kept as the URL Standard serialises it: what stands before the path
  (scheme, \<open>//\<close> and authority), the path, the query and the fragment, the last two
  \<open>None\<close> when they are null. Strings of URLs are strings of bytes.
\<close>

record URL =
  beforePath :: string
  pathname :: string
  query :: "string option"
  fragment :: "string option"

record 'd platform =
  newURL :: "string \<Rightarrow> URL option"
  decoderInit :: 'd
  decodeStream :: "'d \<Rightarrow> nat list \<Rightarrow> jstext \<times> 'd"
  decodeFinal :: "'d \<Rightarrow> jstext"

definition endsWith :: "string \<Rightarrow> string \<Rightarrow> bool" where
  "endsWith str s = (length s \<le> length str \<and> drop (length str - length s) str = s)"

text \<open>
  \<open>url.searchParams\<close> is the query parsed as \<open>application/x-www-form-urlencoded\<close>:
  split at \<open>&\<close>, empty pieces dropped, each piece split at its first \<open>=\<close>, \<open>+\<close> read
  as a space, percent escapes decoded. (The Standard then decodes the bytes as UTF-8;
  names and values are kept as bytes here.) A change of the list writes the query back:
  the list serialised, or null when the list is empty. The serialiser keeps letters,
  digits and \<open>*-._\<close>, writes a space as \<open>+\<close> and escapes every other byte.
\<close>

fun splitFirst :: "char \<Rightarrow> string \<Rightarrow> string \<times> string option" where
  "splitFirst c [] = ([], None)"
| "splitFirst c (x # xs) =
     (if x = c then ([], Some xs)
      else (case splitFirst c xs of (a, r) \<Rightarrow> (x # a, r)))"

fun splitAll :: "char \<Rightarrow> string \<Rightarrow> string list" where
  "splitAll c [] = [[]]"
| "splitAll c (x # xs) =
     (if x = c then [] # splitAll c xs
      else (case splitAll c xs of p # ps \<Rightarrow> (x # p) # ps | [] \<Rightarrow> [[x]]))"

fun joinWith :: "string \<Rightarrow> string list \<Rightarrow> string" where
  "joinWith sep [] = []"
| "joinWith sep [x] = x"
| "joinWith sep (x # y # ys) = x @ sep @ joinWith sep (y # ys)"

definition hexDigit :: "nat \<Rightarrow> char" where
  "hexDigit d = ''0123456789ABCDEF'' ! d"

definition hexValue :: "char \<Rightarrow> nat option" where
  "hexValue c =
     (let n = (of_char c :: nat)
      in if 48 \<le> n \<and> n \<le> 57 then Some (n - 48)
         else if 65 \<le> n \<and> n \<le> 70 then Some (n - 55)
         else if 97 \<le> n \<and> n \<le> 102 then Some (n - 87)
         else None)"

fun percentDecode :: "string \<Rightarrow> string" where
  "percentDecode [] = []"
| "percentDecode (c # cs) =
     (if c = CHR ''%'' then
        (case cs of
           a # b # rest \<Rightarrow>
             (case (hexValue a, hexValue b) of
                (Some x, Some y) \<Rightarrow> char_of (16 * x + y) # percentDecode rest
              | _ \<Rightarrow> c # percentDecode cs)
         | _ \<Rightarrow> c # percentDecode cs)
      else c # percentDecode cs)"

definition plusToSpace :: "string \<Rightarrow> string" where
  "plusToSpace s = map (\<lambda>c. if c = CHR ''+'' then CHR '' '' else c) s"

definition urlencodedParse :: "string \<Rightarrow> (string \<times> string) list" where
  "urlencodedParse q =
     map (\<lambda>p. case splitFirst CHR ''='' p of
                 (n, v) \<Rightarrow> (percentDecode (plusToSpace n),
                            percentDecode (plusToSpace (case v of None \<Rightarrow> [] | Some w \<Rightarrow> w))))
         (filter (\<lambda>p. p \<noteq> []) (splitAll CHR ''&'' q))"

definition urlencodedKeeps :: "char \<Rightarrow> bool" where
  "urlencodedKeeps c =
     (let n = (of_char c :: nat)
      in (48 \<le> n \<and> n \<le> 57) \<or> (65 \<le> n \<and> n \<le> 90) \<or> (97 \<le> n \<and> n \<le> 122)
         \<or> n = 42 \<or> n = 45 \<or> n = 46 \<or> n = 95)"

definition encodeByte :: "char \<Rightarrow> string" where
  "encodeByte c =
     (if c = CHR '' '' then ''+''
      else if urlencodedKeeps c then [c]
      else [CHR ''%'', hexDigit (of_char c div 16), hexDigit (of_char c mod 16)])"

definition urlencodedEncode :: "string \<Rightarrow> string" where
  "urlencodedEncode s = concat (map encodeByte s)"

definition urlencodedSerialize :: "(string \<times> string) list \<Rightarrow> string" where
  "urlencodedSerialize params =
     joinWith ''&'' (map (\<lambda>(n, v). urlencodedEncode n @ ''='' @ urlencodedEncode v) params)"

definition searchParams :: "URL \<Rightarrow> (string \<times> string) list" where
  "searchParams u = urlencodedParse (case query u of None \<Rightarrow> [] | Some q \<Rightarrow> q)"

definition has :: "(string \<times> string) list \<Rightarrow> string \<Rightarrow> bool" where
  "has params name = list_ex (\<lambda>p. fst p = name) params"

definition delete :: "(string \<times> string) list \<Rightarrow> string \<Rightarrow> (string \<times> string) list" where
  "delete params name = filter (\<lambda>p. fst p \<noteq> name) params"

text \<open>\<open>url.searchParams.delete(name)\<close>, as it leaves the URL.\<close>

definition searchParamsDelete :: "URL \<Rightarrow> string \<Rightarrow> URL" where
  "searchParamsDelete u name =
     u\<lparr>query := (if delete (searchParams u) name = [] then None
                 else Some (urlencodedSerialize (delete (searchParams u) name)))\<rparr>"

text \<open>\<open>url.toString()\<close>: the serialisation of the URL.\<close>

definition href :: "URL \<Rightarrow> string" where
  "href u =
     beforePath u @ pathname u
       @ (case query u of None \<Rightarrow> [] | Some q \<Rightarrow> CHR ''?'' # q)
       @ (case fragment u of None \<Rightarrow> [] | Some f \<Rightarrow> CHR ''#'' # f)"

text \<open>
  A value thrown or a rejection reason: an \<open>Error\<close> with its message, a \<open>Response\<close> with
  its status and the outcome of its \<open>text()\<close> (\<open>None\<close> when that rejects), or any other
  value with its string conversion.
\<close>

datatype thrown = JsError string | ThrownResponse nat "jstext option" | ThrownValue string

text \<open>
  A response body is either not readable as a stream, and then \<open>response.text()\<close> settles
  with the text or a rejection, or a stream of byte chunks that ends or fails after
  finitely many reads. A body that never ends keeps the handler waiting and is not a
  value of this type.
\<close>

datatype response_body =
    NoStream "thrown + jstext"
  | Stream "nat list list" "thrown option"

record Response =
  status :: nat
  responseHeaderList :: headers
  responseBody :: response_body

datatype fetch_outcome = Rejects thrown | Resolves Response

record RequestInit =
  initMethod :: string
  initHeaders :: headers
  initBody :: "string option"

subsection \<open>The handler\<close>

text \<open>The rewrite of the URL for \<open>GET\<close> requests; an unparsable URL is logged and kept.\<close>

definition rewriteUrl :: "'d platform \<Rightarrow> string \<Rightarrow> string \<Rightarrow> string" where
  "rewriteUrl pf meth u =
     (if meth = ''GET'' then
        (case newURL pf u of
           None \<Rightarrow> u
         | Some parsedUrl \<Rightarrow>
             if endsWith (pathname parsedUrl) ''/v1beta/models''
                \<or> endsWith (pathname parsedUrl) ''/v1beta/models/''
             then (if has (searchParams parsedUrl) ''key''
                   then href (searchParamsDelete parsedUrl ''key'')
                   else u)
             else u)
      else u)"

definition fetchOptions :: "WSHttpRequestPayload \<Rightarrow> RequestInit" where
  "fetchOptions p =
     \<lparr>initMethod = method' p, initHeaders = headers p,
      initBody = (if method' p \<noteq> ''GET'' \<and> method' p \<noteq> ''HEAD'' then body p else None)\<rparr>"

definition responseHeaders :: "Response \<Rightarrow> headers" where
  "responseHeaders response =
     fold (\<lambda>(key, value). AList.update key value) (responseHeaderList response) []"

text \<open>The read loop: one \<open>stream_chunk\<close> for every chunk read, the decoder's state
  passed on from chunk to chunk.\<close>

fun readLoop :: "'d platform \<Rightarrow> string \<Rightarrow> 'd \<Rightarrow> nat list list \<Rightarrow> WSClientSentMessage list \<times> 'd" where
  "readLoop pf i d [] = ([], d)"
| "readLoop pf i d (value # rest) =
     (case decodeStream pf d value of
        (chunkData, d') \<Rightarrow>
          (case readLoop pf i d' rest of
             (ms, d'') \<Rightarrow> (StreamChunk i chunkData # ms, d'')))"

text \<open>The \<open>try\<close> block: the messages it hands to \<open>sendToServer\<close>, in order, and what it
  throws, if it does.\<close>

definition tryBlock :: "'d platform \<Rightarrow> string \<Rightarrow> fetch_outcome \<Rightarrow> WSClientSentMessage list \<times> thrown option" where
  "tryBlock pf i outcome =
     (case outcome of
        Rejects e \<Rightarrow> ([], Some e)
      | Resolves response \<Rightarrow>
          (case responseBody response of
             Stream chunks ending \<Rightarrow>
               (case readLoop pf i (decoderInit pf) chunks of
                  (ms, d) \<Rightarrow>
                    (case ending of
                       Some e \<Rightarrow> (StreamStart i (status response) (responseHeaders response) # ms, Some e)
                     | None \<Rightarrow>
                         (StreamStart i (status response) (responseHeaders response) # ms
                            @ (if decodeFinal pf d \<noteq> [] then [StreamChunk i (decodeFinal pf d)] else [])
                            @ [StreamEnd i], None)))
           | NoStream (Inl e) \<Rightarrow> ([], Some e)
           | NoStream (Inr responseBodyText) \<Rightarrow>
               ([HttpResponse i (status response) (responseHeaders response) responseBodyText], None)))"

text \<open>The message the \<open>catch\<close> block builds.\<close>

definition errorMessage :: "string \<Rightarrow> thrown \<Rightarrow> WSClientSentMessage" where
  "errorMessage i error =
     (case error of
        JsError m \<Rightarrow> ErrorMessage i ''FETCH_ERROR'' m None
      | ThrownValue s \<Rightarrow> ErrorMessage i ''FETCH_ERROR'' s None
      | ThrownResponse st txt \<Rightarrow>
          if st \<noteq> 0
          then ErrorMessage i ''HTTP_ERROR'' ''[object Response]''
                 (Some (st, [], case txt of Some t \<Rightarrow> t
                                | None \<Rightarrow> map of_char ''Could not read error body''))
          else ErrorMessage i ''FETCH_ERROR'' ''[object Response]'' None)"

text \<open>
  One execution of a command: the URL and options \<open>fetch\<close> is called with, and the
  messages handed to \<open>sendToServer\<close>, in order. \<open>fetch\<close> stands for what the network does
  with the call. Every operation of the source that can throw lies inside its \<open>try\<close>
  block, and the \<open>catch\<close> block throws nothing: the handler always completes. What the
  handler writes to the console is left out.
\<close>

record bridge_run =
  fetchedUrl :: string
  fetchedOptions :: RequestInit
  emitted :: "WSClientSentMessage list"

definition handleHttpRequest ::
  "'d platform \<Rightarrow> (string \<Rightarrow> RequestInit \<Rightarrow> fetch_outcome) \<Rightarrow> WSHttpRequestMessage \<Rightarrow> bridge_run" where
  "handleHttpRequest pf fetch request =
     (let u = rewriteUrl pf (method' (payload request)) (url (payload request));
          opts = fetchOptions (payload request)
      in \<lparr>fetchedUrl = u, fetchedOptions = opts,
          emitted = (case tryBlock pf (id' request) (fetch u opts) of
                       (ms, None) \<Rightarrow> ms
                     | (ms, Some e) \<Rightarrow> ms @ [errorMessage (id' request) e])\<rparr>)"

fun messageId :: "WSClientSentMessage \<Rightarrow> string option" where
  "messageId (HttpResponse i s h b) = Some i"
| "messageId (StreamStart i s h) = Some i"
| "messageId (StreamChunk i d) = Some i"
| "messageId (StreamEnd i) = Some i"
| "messageId (ErrorMessage i c m r) = Some i"
| "messageId Ping = None"

fun isErrorMessage :: "WSClientSentMessage \<Rightarrow> bool" where
  "isErrorMessage (ErrorMessage i c m r) = True"
| "isErrorMessage m = False"

text \<open>The frames put on a socket, oldest first.\<close>

fun framesSent :: "effect list \<Rightarrow> (nat \<times> WSClientSentMessage) list" where
  "framesSent [] = []"
| "framesSent (SocketSend h m # es) = (h, m) # framesSent es"
| "framesSent (e # es) = framesSent es"

text \<open>
  For the statements about the relay: the texts the decoder gives for the chunks of a
  body, its state being passed from each chunk to the next, and the state after the last
  chunk; what an execution throws inside the \<open>try\<close> block; and the outcome of the call
  of \<open>fetch\<close> the handler makes.
\<close>

fun decodeChunks :: "'d platform \<Rightarrow> 'd \<Rightarrow> nat list list \<Rightarrow> jstext list" where
  "decodeChunks pf d [] = []"
| "decodeChunks pf d (c # cs) = fst (decodeStream pf d c) # decodeChunks pf (snd (decodeStream pf d c)) cs"

fun decoderAfter :: "'d platform \<Rightarrow> 'd \<Rightarrow> nat list list \<Rightarrow> 'd" where
  "decoderAfter pf d [] = d"
| "decoderAfter pf d (c # cs) = decoderAfter pf (snd (decodeStream pf d c)) cs"

definition thrownBy :: "fetch_outcome \<Rightarrow> thrown option" where
  "thrownBy outcome =
     (case outcome of
        Rejects e \<Rightarrow> Some e
      | Resolves response \<Rightarrow>
          (case responseBody response of
             NoStream (Inl e) \<Rightarrow> Some e
           | NoStream (Inr t) \<Rightarrow> None
           | Stream chunks ending \<Rightarrow> ending))"

definition fetched :: "'d platform \<Rightarrow> (string \<Rightarrow> RequestInit \<Rightarrow> fetch_outcome) \<Rightarrow> WSHttpRequestMessage \<Rightarrow> fetch_outcome" where
  "fetched pf fetch request =
     fetch (rewriteUrl pf (method' (payload request)) (url (payload request)))
           (fetchOptions (payload request))"

subsection \<open>A browser\<close>

text \<open>
  The UTF-8 decoder of the Encoding Standard, as \<open>new TextDecoder()\<close> gives it: errors
  are replaced by U+FFFD and a leading byte order mark is dropped.
\<close>

record utf8_state =
  codePoint :: nat
  bytesSeen :: nat
  bytesNeeded :: nat
  lowerBoundary :: nat
  upperBoundary :: nat
  bomSeen :: bool

definition utf8Init :: utf8_state where
  "utf8Init = \<lparr>codePoint = 0, bytesSeen = 0, bytesNeeded = 0, lowerBoundary = 0x80,
               upperBoundary = 0xBF, bomSeen = False\<rparr>"

definition utf8Reset :: "utf8_state \<Rightarrow> utf8_state" where
  "utf8Reset s = s\<lparr>codePoint := 0, bytesSeen := 0, bytesNeeded := 0, lowerBoundary := 0x80,
                   upperBoundary := 0xBF\<rparr>"

definition utf8Lead :: "utf8_state \<Rightarrow> nat \<Rightarrow> nat list \<times> utf8_state" where
  "utf8Lead s b =
     (if b \<le> 0x7F then ([b], s)
      else if 0xC2 \<le> b \<and> b \<le> 0xDF then ([], s\<lparr>bytesNeeded := 1, codePoint := b mod 32\<rparr>)
      else if 0xE0 \<le> b \<and> b \<le> 0xEF
      then ([], s\<lparr>lowerBoundary := (if b = 0xE0 then 0xA0 else lowerBoundary s),
                  upperBoundary := (if b = 0xED then 0x9F else upperBoundary s),
                  bytesNeeded := 2, codePoint := b mod 16\<rparr>)
      else if 0xF0 \<le> b \<and> b \<le> 0xF4
      then ([], s\<lparr>lowerBoundary := (if b = 0xF0 then 0x90 else lowerBoundary s),
                  upperBoundary := (if b = 0xF4 then 0x8F else upperBoundary s),
                  bytesNeeded := 3, codePoint := b mod 8\<rparr>)
      else ([0xFFFD], s))"

definition utf8Byte :: "utf8_state \<Rightarrow> nat \<Rightarrow> nat list \<times> utf8_state" where
  "utf8Byte s b =
     (if bytesNeeded s = 0 then utf8Lead s b
      else if b < lowerBoundary s \<or> upperBoundary s < b
      then (case utf8Lead (utf8Reset s) b of (out, s') \<Rightarrow> (0xFFFD # out, s'))
      else if Suc (bytesSeen s) \<noteq> bytesNeeded s
      then ([], s\<lparr>lowerBoundary := 0x80, upperBoundary := 0xBF,
                  codePoint := codePoint s * 64 + b mod 64, bytesSeen := Suc (bytesSeen s)\<rparr>)
      else ([codePoint s * 64 + b mod 64], utf8Reset s))"

fun utf8Bytes :: "utf8_state \<Rightarrow> nat list \<Rightarrow> nat list \<times> utf8_state" where
  "utf8Bytes s [] = ([], s)"
| "utf8Bytes s (b # bs) =
     (case utf8Byte s b of
        (out, s') \<Rightarrow> (case utf8Bytes s' bs of (outs, s'') \<Rightarrow> (out @ outs, s'')))"

definition utf8Output :: "nat list \<times> utf8_state \<Rightarrow> nat list \<times> utf8_state" where
  "utf8Output r =
     (case r of
        (out, s) \<Rightarrow>
          if bomSeen s \<or> out = [] then (out, s)
          else (if hd out = 0xFEFF then tl out else out, s\<lparr>bomSeen := True\<rparr>))"

definition utf8DecodeStream :: "utf8_state \<Rightarrow> nat list \<Rightarrow> jstext \<times> utf8_state" where
  "utf8DecodeStream s bytes = utf8Output (utf8Bytes s bytes)"

definition utf8DecodeFinal :: "utf8_state \<Rightarrow> jstext" where
  "utf8DecodeFinal s = (if bytesNeeded s \<noteq> 0 then [0xFFFD] else [])"

text \<open>
  The URL parser, in part. \<open>plainNewURL\<close> gives what the URL Standard gives, without a
  base URL, for the strings described next; for no other string is it meant to stand for
  the platform. A string with no \<open>:\<close> before its first \<open>/\<close>, \<open>?\<close> or \<open>#\<close> names no
  scheme and is rejected, so every relative URL is. Otherwise the string consists of
  printable ASCII characters other than the space, the double quote, the backslash, the
  backquote and \<open><>^{|}\<close>, and reads
  \<open>scheme://host:port/path?query#fragment\<close> where the scheme is \<open>http\<close>, \<open>https\<close>,
  \<open>ws\<close>, \<open>wss\<close> or \<open>ftp\<close> in any case; the host consists of letters, digits, hyphens
  and dots, its labels are not empty and do not begin with \<open>xn--\<close>, and its last label
  has a letter or the host is an IPv4 address written as four decimal numbers without
  leading zeros; the port, the path, the query and the fragment may be missing; the path
  has no \<open>%\<close> and no segment \<open>.\<close> or \<open>..\<close>. The Standard writes scheme and host in
  lower case, leaves out an empty port and the default port of the scheme, rejects a port
  that is not a number below 65536, and gives an empty path as \<open>/\<close>.
\<close>

definition asciiLower :: "char \<Rightarrow> char" where
  "asciiLower c = (if 65 \<le> (of_char c :: nat) \<and> (of_char c :: nat) \<le> 90
                   then char_of ((of_char c :: nat) + 32) else c)"

definition defaultPort :: "string \<Rightarrow> nat option" where
  "defaultPort scheme =
     (if scheme = ''http'' \<or> scheme = ''ws'' then Some 80
      else if scheme = ''https'' \<or> scheme = ''wss'' then Some 443
      else if scheme = ''ftp'' then Some 21
      else None)"

fun digitsValue :: "nat \<Rightarrow> string \<Rightarrow> nat option" where
  "digitsValue acc [] = Some acc"
| "digitsValue acc (c # cs) =
     (if 48 \<le> (of_char c :: nat) \<and> (of_char c :: nat) \<le> 57
      then digitsValue (10 * acc + ((of_char c :: nat) - 48)) cs else None)"

definition plainNewURL :: "string \<Rightarrow> URL option" where
  "plainNewURL u =
     (case splitFirst CHR ''#'' u of
        (beforeHash, frag) \<Rightarrow>
          (case splitFirst CHR ''?'' beforeHash of
             (beforeQuery, qry) \<Rightarrow>
               (case splitFirst CHR '':'' beforeQuery of
                  (scheme, None) \<Rightarrow> None
                | (scheme, Some rest) \<Rightarrow>
                    (case defaultPort (map asciiLower scheme) of
                       None \<Rightarrow> None
                     | Some dflt \<Rightarrow>
                         if take 2 rest \<noteq> ''//'' then None
                         else
                           (case splitFirst CHR ''/'' (drop 2 rest) of
                              (authority, path) \<Rightarrow>
                                (case splitFirst CHR '':'' authority of
                                   (host, port) \<Rightarrow>
                                     (case digitsValue 0 (case port of None \<Rightarrow> [] | Some ds \<Rightarrow> ds) of
                                        None \<Rightarrow> None
                                      | Some n \<Rightarrow>
                                          if host = [] \<or> 65535 < n then None
                                          else Some
                                            \<lparr>beforePath = map asciiLower scheme @ ''://'' @ map asciiLower host
                                               @ (if port = None \<or> port = Some [] \<or> n = dflt then []
                                                  else CHR '':'' # showNat n),
                                             pathname = CHR ''/'' # (case path of None \<Rightarrow> [] | Some p \<Rightarrow> p),
                                             query = qry, fragment = frag\<rparr>)))))))"

definition browser :: "utf8_state platform" where
  "browser = \<lparr>newURL = plainNewURL, decoderInit = utf8Init,
              decodeStream = utf8DecodeStream, decodeFinal = utf8DecodeFinal\<rparr>"

subsection \<open>Example commands and networks\<close>




definition requestR2 :: WSHttpRequestMessage where
  "requestR2 = \<lparr>id' = ''r2'', payload = \<lparr>method' = ''POST'',
      url = ''https://api.example.com/v1beta/models/m:generate'', headers = [], body = Some ''{}''\<rparr>\<rparr>"

definition networkDown :: "string \<Rightarrow> RequestInit \<Rightarrow> fetch_outcome" where
  "networkDown u opts = Rejects (JsError ''Failed to fetch'')"

definition networkStreams :: "nat list list \<Rightarrow> thrown option \<Rightarrow> string \<Rightarrow> RequestInit \<Rightarrow> fetch_outcome" where
  "networkStreams chunks ending u opts =
     Resolves \<lparr>status = 200, responseHeaderList = [], responseBody = Stream chunks ending\<rparr>"


section \<open>Invariants of the state machine\<close>

text \<open>
  The browser's tables of timers agree with the two identifiers the module keeps:
  exactly the timer it remembers is pending, and no identifier is the falsy \<open>0\<close>.
\<close>

fun pendingId :: "nat option \<Rightarrow> nat list" where
  "pendingId None = []"
| "pendingId (Some t) = [t]"

definition timersOk :: "session \<Rightarrow> bool" where
  "timersOk st =
     (timeouts st = pendingId (reconnectTimeoutId st) \<and> reconnectTimeoutId st \<noteq> Some 0
      \<and> intervals st = pendingId (pingIntervalId st) \<and> pingIntervalId st \<noteq> Some 0
      \<and> 0 < nextTimerId st)"

text \<open>
  The part of a session the backoff is about: the base delays scheduled so far and the
  delay the next reconnect will use. One scheduling appends the current delay and doubles
  it up to the ceiling.
\<close>

definition sched :: "session \<Rightarrow> nat list \<times> nat" where
  "sched st = (scheduledBases (effects st), currentReconnectDelay st)"

definition nextSched :: "nat list \<times> nat \<Rightarrow> nat list \<times> nat" where
  "nextSched p = (fst p @ [snd p], min (snd p * 2) RECONNECT_MAX_DELAY_MS)"

text \<open>
  The keep-alive loop against the status: a pending reconnect timer means a stored token
  and a status other than \<open>CONNECTED\<close>; no loop runs in \<open>IDLE\<close> or
  \<open>DISCONNECTED\<close>; a loop runs in \<open>CONNECTED\<close> as long as the session holds a socket.
\<close>

definition keepAliveOk :: "session \<Rightarrow> bool" where
  "keepAliveOk st =
     ((reconnectTimeoutId st \<noteq> None \<longrightarrow> truthyStr (currentJwtToken st) \<and> currentStatus st \<noteq> CONNECTED)
      \<and> (currentStatus st = IDLE \<or> currentStatus st = DISCONNECTED \<longrightarrow> pingIntervalId st = None)
      \<and> (currentStatus st = CONNECTED \<and> socket st \<noteq> None \<longrightarrow> pingIntervalId st \<noteq> None))"

text \<open>
  Whether the socket held is open, and the statuses in which it never is: the status is
  never left at \<open>DISCONNECTED\<close> by a handler, and in \<open>CONNECTING\<close> and
  \<open>RECONNECTING\<close> the socket held, if any, is not open.
\<close>

definition socketOpen :: "session \<Rightarrow> bool" where
  "socketOpen st = (case socket st of None \<Rightarrow> False | Some h \<Rightarrow> readyState st h = WS_OPEN)"

definition quietOk :: "session \<Rightarrow> bool" where
  "quietOk st =
     (currentStatus st \<noteq> DISCONNECTED
      \<and> (currentStatus st = CONNECTING \<or> currentStatus st = RECONNECTING \<longrightarrow> \<not> socketOpen st))"

text \<open>The URLs of the sockets constructed so far, oldest first.\<close>

fun socketsOpened :: "effect list \<Rightarrow> string list" where
  "socketsOpened [] = []"
| "socketsOpened (NewWebSocket u # es) = u # socketsOpened es"
| "socketsOpened (e # es) = socketsOpened es"

subsection \<open>The timer tables\<close>

lemma truthyId_simps [simp]: "truthyId None = False" "truthyId (Some n) = (n \<noteq> 0)"
  by (simp_all add: truthyId_def)

lemma truthyStr_simps [simp]: "truthyStr None = False" "truthyStr (Some s) = (s \<noteq> [])"
  by (simp_all add: truthyStr_def)

lemma timersOk_init: "timersOk init"
  by (simp add: timersOk_def init_def)

lemma timersOk_emit [simp]: "timersOk (emit e st) = timersOk st"
  by (simp add: timersOk_def emit_def)

lemma timersOk_fields [simp]:
  "timersOk (st\<lparr>socket := a\<rparr>) = timersOk st"
  "timersOk (st\<lparr>currentStatus := b\<rparr>) = timersOk st"
  "timersOk (st\<lparr>onStatusChangeCallback := c\<rparr>) = timersOk st"
  "timersOk (st\<lparr>currentReconnectDelay := d\<rparr>) = timersOk st"
  "timersOk (st\<lparr>explicitClose := e\<rparr>) = timersOk st"
  "timersOk (st\<lparr>currentJwtToken := f\<rparr>) = timersOk st"
  "timersOk (st\<lparr>readyStates := g\<rparr>) = timersOk st"
  by (simp_all add: timersOk_def)

lemma timersOk_updateStatus [simp]: "timersOk (updateStatus s d st) = timersOk st"
  by (simp add: updateStatus_def)

lemma timersOk_sendToServer [simp]: "timersOk (sendToServer m st) = timersOk st"
  by (simp add: sendToServer_def split: option.splits)

lemma timersOk_newWebSocket [simp]: "timersOk (newWebSocket u st) = timersOk st"
  by (simp add: newWebSocket_def)

lemma timersOk_socketClose [simp]: "timersOk (socketClose h c r st) = timersOk st"
  by (simp add: socketClose_def)

lemma timersOk_stopPing: "timersOk st \<Longrightarrow> timersOk (stopPing st)"
  by (cases "pingIntervalId st") (simp_all add: timersOk_def stopPing_def clearInterval_def emit_def)

lemma stopPing_pingIntervalId: "timersOk st \<Longrightarrow> pingIntervalId (stopPing st) = None"
  by (cases "pingIntervalId st") (simp_all add: timersOk_def stopPing_def clearInterval_def emit_def)

lemma timersOk_clearReconnect: "timersOk st \<Longrightarrow> timersOk (clearReconnect st)"
  by (cases "reconnectTimeoutId st") (simp_all add: timersOk_def clearReconnect_def clearTimeout_def emit_def)

lemma clearReconnect_reconnectTimeoutId: "timersOk st \<Longrightarrow> reconnectTimeoutId (clearReconnect st) = None"
  by (cases "reconnectTimeoutId st") (simp_all add: timersOk_def clearReconnect_def clearTimeout_def emit_def)

lemma timersOk_startPing: "timersOk st \<Longrightarrow> timersOk (startPing st)"
  using timersOk_stopPing [of st] stopPing_pingIntervalId [of st]
  by (simp add: startPing_def Let_def setInterval_def emit_def timersOk_def)

lemma timersOk_onSocketOpen: "timersOk st \<Longrightarrow> timersOk (onSocketOpen st)"
  by (simp add: onSocketOpen_def timersOk_startPing timersOk_clearReconnect)

lemma timersOk_scheduleReconnect: "timersOk st \<Longrightarrow> timersOk (scheduleReconnect rnd st)"
  by (cases "reconnectTimeoutId st")
     (simp_all add: scheduleReconnect_def Let_def setTimeout_def clearTimeout_def emit_def timersOk_def updateStatus_def)

lemma timersOk_connect: "timersOk st \<Longrightarrow> timersOk (connect ctor rnd tok st)"
  by (simp add: connect_def Let_def timersOk_scheduleReconnect split: ctor_result.splits)

lemma timersOk_reconnectFired:
  "timersOk st \<Longrightarrow> i \<in> set (timeouts st) \<Longrightarrow>
   timersOk (st\<lparr>timeouts := removeAll i (timeouts st), reconnectTimeoutId := None\<rparr>)"
  by (cases "reconnectTimeoutId st") (simp_all add: timersOk_def)

lemma timersOk_reconnectCallback:
  "timersOk st \<Longrightarrow> i \<in> set (timeouts st) \<Longrightarrow>
   timersOk (reconnectCallback ctor rnd (st\<lparr>timeouts := removeAll i (timeouts st)\<rparr>))"
  using timersOk_reconnectFired [of st i]
  by (simp add: reconnectCallback_def Let_def timersOk_connect)

lemma timersOk_onSocketClose: "timersOk st \<Longrightarrow> timersOk (onSocketClose ev rnd st)"
  using timersOk_stopPing [of st]
  by (simp add: onSocketClose_def Let_def timersOk_scheduleReconnect)

lemma timersOk_disconnect: "timersOk st \<Longrightarrow> timersOk (disconnect rnd st)"
  by (simp add: disconnect_def Let_def timersOk_onSocketClose timersOk_stopPing timersOk_clearReconnect
      split: option.splits)

lemma timersOk_setOnStatusChange: "timersOk (setOnStatusChange cb st) = timersOk st"
  by (simp add: setOnStatusChange_def Let_def)

lemma timersOk_onSocketMessage: "timersOk (fst (onSocketMessage f st)) = timersOk st"
  by (simp add: onSocketMessage_def split: parsed_frame.splits)

lemma timersOk_step: "timersOk st \<Longrightarrow> timersOk (step e st)"
  by (cases e)
     (simp_all add: timersOk_connect timersOk_disconnect timersOk_setOnStatusChange
        timersOk_onSocketOpen timersOk_onSocketClose timersOk_onSocketMessage onSocketError_def
        timersOk_reconnectCallback pingCallback_def)

lemma timersOk_run: "timersOk st \<Longrightarrow> timersOk (run evs st)"
  unfolding run_def by (induction evs arbitrary: st) (simp_all add: timersOk_step)

subsection \<open>The backoff schedule\<close>

lemma scheduledBases_append [simp]:
  "scheduledBases (xs @ ys) = scheduledBases xs @ scheduledBases ys"
  by (induction xs rule: scheduledBases.induct) simp_all

lemma sched_emit:
  "sched (emit e st) = (case e of SetTimeout i b j \<Rightarrow> (fst (sched st) @ [b], snd (sched st)) | _ \<Rightarrow> sched st)"
  by (cases e) (simp_all add: sched_def emit_def)

lemma sched_fields [simp]:
  "sched (st\<lparr>socket := a\<rparr>) = sched st"
  "sched (st\<lparr>currentStatus := b\<rparr>) = sched st"
  "sched (st\<lparr>onStatusChangeCallback := c\<rparr>) = sched st"
  "sched (st\<lparr>pingIntervalId := d\<rparr>) = sched st"
  "sched (st\<lparr>reconnectTimeoutId := e\<rparr>) = sched st"
  "sched (st\<lparr>explicitClose := f\<rparr>) = sched st"
  "sched (st\<lparr>currentJwtToken := g\<rparr>) = sched st"
  "sched (st\<lparr>readyStates := h\<rparr>) = sched st"
  "sched (st\<lparr>timeouts := i\<rparr>) = sched st"
  "sched (st\<lparr>intervals := j\<rparr>) = sched st"
  "sched (st\<lparr>nextTimerId := k\<rparr>) = sched st"
  by (simp_all add: sched_def)

lemma sched_updateStatus [simp]: "sched (updateStatus s d st) = sched st"
  by (simp add: updateStatus_def sched_emit)

lemma sched_sendToServer [simp]: "sched (sendToServer m st) = sched st"
  by (simp add: sendToServer_def sched_emit split: option.splits)

lemma sched_newWebSocket [simp]: "sched (newWebSocket u st) = sched st"
  by (simp add: newWebSocket_def sched_emit)

lemma sched_socketClose [simp]: "sched (socketClose h c r st) = sched st"
  by (simp add: socketClose_def sched_emit)

lemma sched_stopPing [simp]: "sched (stopPing st) = sched st"
  by (simp add: stopPing_def clearInterval_def sched_emit)

lemma sched_clearReconnect [simp]: "sched (clearReconnect st) = sched st"
  by (simp add: clearReconnect_def clearTimeout_def sched_emit)

lemma sched_scheduleReconnect:
  "sched (scheduleReconnect rnd st) =
     (if explicitClose st \<or> \<not> truthyStr (currentJwtToken st) then sched st else nextSched (sched st))"
  by (simp add: scheduleReconnect_def Let_def setTimeout_def clearTimeout_def sched_emit)
     (simp add: sched_def nextSched_def updateStatus_def emit_def)

lemma sched_connect:
  "sched (connect ctor rnd tok st) = sched st \<or> sched (connect ctor rnd tok st) = nextSched (sched st)"
  by (simp add: connect_def Let_def sched_scheduleReconnect sched_emit split: ctor_result.splits)

lemma sched_reconnectCallback:
  "sched (reconnectCallback ctor rnd st) = sched st
   \<or> sched (reconnectCallback ctor rnd st) = nextSched (sched st)"
  using sched_connect [of ctor rnd "currentJwtToken st" "st\<lparr>reconnectTimeoutId := None\<rparr>"]
  by (simp add: reconnectCallback_def Let_def)

lemma sched_onSocketClose:
  "sched (onSocketClose ev rnd st) = sched st \<or> sched (onSocketClose ev rnd st) = nextSched (sched st)"
  by (simp add: onSocketClose_def Let_def sched_scheduleReconnect)

lemma sched_disconnect: "sched (disconnect rnd st) = sched st"
  by (simp add: disconnect_def Let_def onSocketClose_def split: option.splits)
     (simp add: stopPing_def clearReconnect_def clearInterval_def clearTimeout_def emit_def)

lemma sched_setOnStatusChange: "sched (setOnStatusChange cb st) = sched st"
  by (simp add: setOnStatusChange_def Let_def sched_emit)

lemma sched_onSocketMessage: "sched (fst (onSocketMessage f st)) = sched st"
  by (simp add: onSocketMessage_def sched_emit split: parsed_frame.splits)

lemma sched_step:
  "\<not> isSocketOpens e \<Longrightarrow> sched (step e st) = sched st \<or> sched (step e st) = nextSched (sched st)"
proof (cases e)
  case (Connect ctor rnd tok)
  then show ?thesis using sched_connect [of ctor rnd tok st] by simp
next
  case (SocketCloses h ev rnd)
  then show ?thesis
    using sched_onSocketClose [of ev rnd "st\<lparr>readyStates := (readyStates st)[h := WS_CLOSED]\<rparr>"]
    by simp
next
  case (TimeoutFires i ctor rnd)
  then show ?thesis
    using sched_reconnectCallback [of ctor rnd "st\<lparr>timeouts := removeAll i (timeouts st)\<rparr>"]
    by simp
qed (simp_all add: sched_disconnect sched_setOnStatusChange sched_onSocketMessage
       onSocketError_def sched_emit pingCallback_def)

lemma backoff_next: "min (backoff m * 2) RECONNECT_MAX_DELAY_MS = backoff (Suc m)"
  by (simp add: backoff_def RECONNECT_MAX_DELAY_MS_def RECONNECT_INITIAL_DELAY_MS_def)

lemma sched_run:
  "\<forall>e \<in> set evs. \<not> isSocketOpens e \<Longrightarrow> sched st = (bs @ map backoff [0..<m], backoff m) \<Longrightarrow>
   \<exists>k. sched (run evs st) = (bs @ map backoff [0..<k], backoff k)"
proof (induction evs arbitrary: st m)
  case Nil
  then show ?case by (auto simp: run_def)
next
  case (Cons e evs)
  have "sched (step e st) = sched st \<or> sched (step e st) = nextSched (sched st)"
    using Cons.prems(1) by (simp add: sched_step)
  then have "\<exists>m'. sched (step e st) = (bs @ map backoff [0..<m'], backoff m')"
  proof
    assume "sched (step e st) = sched st"
    then show ?thesis using Cons.prems(2) by auto
  next
    assume "sched (step e st) = nextSched (sched st)"
    then have "sched (step e st) = (bs @ map backoff [0..<Suc m], backoff (Suc m))"
      using Cons.prems(2) by (simp add: nextSched_def backoff_next)
    then show ?thesis by blast
  qed
  then obtain m' where "sched (step e st) = (bs @ map backoff [0..<m'], backoff m')" ..
  then have "\<exists>k. sched (run evs (step e st)) = (bs @ map backoff [0..<k], backoff k)"
    using Cons.IH [of "step e st" m'] Cons.prems(1) by simp
  then show ?case by (simp add: run_def)
qed

subsection \<open>Fields and effects of the handlers\<close>

lemmas eval_defs = connect_def updateStatus_def emit_def newWebSocket_def readyState_def
  onSocketClose_def onSocketOpen_def stopPing_def startPing_def scheduleReconnect_def Let_def
  setTimeout_def setInterval_def clearTimeout_def clearInterval_def clearReconnect_def
  reconnectCallback_def disconnect_def socketClose_def sendToServer_def pingCallback_def
  WS_CLOSED_def WS_CONNECTING_def WS_OPEN_def WS_CLOSING_def PING_INTERVAL_MS_def
  RECONNECT_INITIAL_DELAY_MS_def RECONNECT_MAX_DELAY_MS_def RECONNECT_JITTER_MS_def
  BASE_WEBSOCKET_URL_def WEBSOCKET_PROXY_URL_def


lemma socketsOpened_append [simp]:
  "socketsOpened (xs @ ys) = socketsOpened xs @ socketsOpened ys"
  by (induction xs rule: socketsOpened.induct) simp_all

lemma framesSent_append [simp]:
  "framesSent (xs @ ys) = framesSent xs @ framesSent ys"
  by (induction xs rule: framesSent.induct) simp_all

lemma emit_fields [simp]:
  "socket (emit e st) = socket st"
  "currentStatus (emit e st) = currentStatus st"
  "onStatusChangeCallback (emit e st) = onStatusChangeCallback st"
  "pingIntervalId (emit e st) = pingIntervalId st"
  "reconnectTimeoutId (emit e st) = reconnectTimeoutId st"
  "currentReconnectDelay (emit e st) = currentReconnectDelay st"
  "explicitClose (emit e st) = explicitClose st"
  "currentJwtToken (emit e st) = currentJwtToken st"
  "readyStates (emit e st) = readyStates st"
  "timeouts (emit e st) = timeouts st"
  "intervals (emit e st) = intervals st"
  "nextTimerId (emit e st) = nextTimerId st"
  "effects (emit e st) = effects st @ [e]"
  by (simp_all add: emit_def)

lemma readyState_emit [simp]: "readyState (emit e st) h = readyState st h"
  by (simp add: readyState_def)

lemma updateStatus_fields [simp]:
  "socket (updateStatus s d st) = socket st"
  "currentStatus (updateStatus s d st) = s"
  "onStatusChangeCallback (updateStatus s d st) = onStatusChangeCallback st"
  "pingIntervalId (updateStatus s d st) = pingIntervalId st"
  "reconnectTimeoutId (updateStatus s d st) = reconnectTimeoutId st"
  "currentReconnectDelay (updateStatus s d st) = currentReconnectDelay st"
  "explicitClose (updateStatus s d st) = explicitClose st"
  "currentJwtToken (updateStatus s d st) = currentJwtToken st"
  "readyStates (updateStatus s d st) = readyStates st"
  "timeouts (updateStatus s d st) = timeouts st"
  "intervals (updateStatus s d st) = intervals st"
  "nextTimerId (updateStatus s d st) = nextTimerId st"
  by (simp_all add: updateStatus_def)

lemma updateStatus_effects:
  "effects (updateStatus s d st) =
     effects st @ (if currentStatus st = s \<and> \<not> truthyStr d then []
                   else (if onStatusChangeCallback st then [StatusCallback s d] else [])
                        @ [ConsoleLog ''WebSocket Proxy Status''])"
  by (simp add: updateStatus_def)

lemma readyState_updateStatus [simp]: "readyState (updateStatus s d st) h = readyState st h"
  by (simp add: readyState_def)

lemma stopPing_fields [simp]:
  "socket (stopPing st) = socket st"
  "currentStatus (stopPing st) = currentStatus st"
  "onStatusChangeCallback (stopPing st) = onStatusChangeCallback st"
  "reconnectTimeoutId (stopPing st) = reconnectTimeoutId st"
  "currentReconnectDelay (stopPing st) = currentReconnectDelay st"
  "explicitClose (stopPing st) = explicitClose st"
  "currentJwtToken (stopPing st) = currentJwtToken st"
  "readyStates (stopPing st) = readyStates st"
  "timeouts (stopPing st) = timeouts st"
  "nextTimerId (stopPing st) = nextTimerId st"
  by (simp_all add: stopPing_def clearInterval_def)

lemma stopPing_effects:
  "effects (stopPing st) =
     effects st @ (if truthyId (pingIntervalId st) then [ClearInterval (the (pingIntervalId st))] else [])"
  by (simp add: stopPing_def clearInterval_def)

lemma readyState_stopPing [simp]: "readyState (stopPing st) h = readyState st h"
  by (simp add: readyState_def)

lemma clearReconnect_fields [simp]:
  "socket (clearReconnect st) = socket st"
  "currentStatus (clearReconnect st) = currentStatus st"
  "onStatusChangeCallback (clearReconnect st) = onStatusChangeCallback st"
  "pingIntervalId (clearReconnect st) = pingIntervalId st"
  "currentReconnectDelay (clearReconnect st) = currentReconnectDelay st"
  "explicitClose (clearReconnect st) = explicitClose st"
  "currentJwtToken (clearReconnect st) = currentJwtToken st"
  "readyStates (clearReconnect st) = readyStates st"
  "intervals (clearReconnect st) = intervals st"
  "nextTimerId (clearReconnect st) = nextTimerId st"
  "truthyId (reconnectTimeoutId (clearReconnect st)) = False"
  by (simp_all add: clearReconnect_def clearTimeout_def)

lemma clearReconnect_effects:
  "effects (clearReconnect st) =
     effects st @ (if truthyId (reconnectTimeoutId st) then [ClearTimeout (the (reconnectTimeoutId st))] else [])"
  by (simp add: clearReconnect_def clearTimeout_def)

lemma readyState_clearReconnect [simp]: "readyState (clearReconnect st) h = readyState st h"
  by (simp add: readyState_def)

lemma scheduleReconnect_last:
  "\<not> explicitClose st \<Longrightarrow> truthyStr (currentJwtToken st) \<Longrightarrow>
   last (effects (scheduleReconnect rnd st)) =
     SetTimeout (nextTimerId st) (currentReconnectDelay st) (rnd * of_nat RECONNECT_JITTER_MS)"
  by (simp add: scheduleReconnect_def Let_def setTimeout_def clearTimeout_def)

lemma readyState_fields [simp]:
  "readyState (st\<lparr>socket := a\<rparr>) h = readyState st h"
  "readyState (st\<lparr>currentStatus := b\<rparr>) h = readyState st h"
  "readyState (st\<lparr>reconnectTimeoutId := e\<rparr>) h = readyState st h"
  "readyState (st\<lparr>explicitClose := f\<rparr>) h = readyState st h"
  "readyState (st\<lparr>currentJwtToken := g\<rparr>) h = readyState st h"
  "readyState (st\<lparr>timeouts := i\<rparr>) h = readyState st h"
  by (simp_all add: readyState_def)

lemma disconnect_socketsOpened:
  "socketsOpened (effects (disconnect rnd st)) = socketsOpened (effects st)"
  by (simp add: disconnect_def Let_def onSocketClose_def socketClose_def updateStatus_effects
        stopPing_effects clearReconnect_effects split: option.splits)

lemma disconnect_length_readyStates:
  "length (readyStates (disconnect rnd st)) = length (readyStates st)"
  by (simp add: disconnect_def Let_def onSocketClose_def socketClose_def split: option.splits)

lemma onSocketClose_schedules:
  "\<not> explicitClose st \<Longrightarrow> truthyStr (currentJwtToken st) \<Longrightarrow> \<not> truthyId (reconnectTimeoutId st) \<Longrightarrow>
     socket (onSocketClose ev rnd st) = None
     \<and> currentJwtToken (onSocketClose ev rnd st) = currentJwtToken st
     \<and> nextTimerId st \<in> set (timeouts (onSocketClose ev rnd st))
     \<and> currentStatus (onSocketClose ev rnd st) = RECONNECTING
     \<and> socketsOpened (effects (onSocketClose ev rnd st)) = socketsOpened (effects st)"
  by (simp add: onSocketClose_def Let_def scheduleReconnect_def setTimeout_def
        updateStatus_effects stopPing_effects)

lemma reconnectCallback_opens:
  "currentJwtToken st = Some tok \<Longrightarrow> tok \<noteq> [] \<Longrightarrow> socket st = None \<Longrightarrow>
     socketsOpened (effects (reconnectCallback Constructed rnd st))
       = socketsOpened (effects st) @ [BASE_WEBSOCKET_URL @ ''?auth_token='' @ tok]"
  by (simp add: reconnectCallback_def Let_def connect_def newWebSocket_def updateStatus_effects)

lemma connect_early_return:
  assumes "tok \<noteq> []" and "socket st = Some h"
    and "readyState st h = WS_OPEN \<or> readyState st h = WS_CONNECTING"
  shows "connect ctor rnd (Some tok) st =
           emit (ConsoleLog ''WebSocket Proxy: Already connected or connecting.'')
             (st\<lparr>currentJwtToken := Some tok\<rparr>)"
    and "socketsOpened (effects (connect ctor rnd (Some tok) st)) = socketsOpened (effects st)"
    and "readyStates (connect ctor rnd (Some tok) st) = readyStates st"
    and "socket (connect ctor rnd (Some tok) st) = socket st"
    and "currentStatus (connect ctor rnd (Some tok) st) = currentStatus st"
    and "explicitClose (connect ctor rnd (Some tok) st) = explicitClose st"
    and "currentJwtToken (connect ctor rnd (Some tok) st) = Some tok"
    and "\<not> explicitClose st \<and> \<not> truthyId (reconnectTimeoutId st) \<longrightarrow>
           socketsOpened (effects (run [Connect ctor rnd (Some tok), SocketCloses h ev r1,
                                         TimeoutFires (nextTimerId st) Constructed r2] st))
             = socketsOpened (effects st) @ [BASE_WEBSOCKET_URL @ ''?auth_token='' @ tok]"
proof -
  let ?st1 = "connect ctor rnd (Some tok) st"
  show eq: "?st1 = emit (ConsoleLog ''WebSocket Proxy: Already connected or connecting.'')
             (st\<lparr>currentJwtToken := Some tok\<rparr>)"
    using assms by (auto simp add: connect_def Let_def)
  show "socketsOpened (effects ?st1) = socketsOpened (effects st)"
    and "readyStates ?st1 = readyStates st"
    and "socket ?st1 = socket st"
    and "currentStatus ?st1 = currentStatus st"
    and "explicitClose ?st1 = explicitClose st"
    and "currentJwtToken ?st1 = Some tok"
    by (simp_all add: eq)
  show "\<not> explicitClose st \<and> \<not> truthyId (reconnectTimeoutId st) \<longrightarrow>
           socketsOpened (effects (run [Connect ctor rnd (Some tok), SocketCloses h ev r1,
                                         TimeoutFires (nextTimerId st) Constructed r2] st))
             = socketsOpened (effects st) @ [BASE_WEBSOCKET_URL @ ''?auth_token='' @ tok]"
  proof
    assume h: "\<not> explicitClose st \<and> \<not> truthyId (reconnectTimeoutId st)"
    let ?st1' = "?st1\<lparr>readyStates := (readyStates ?st1)[h := WS_CLOSED]\<rparr>"
    let ?st2 = "onSocketClose ev r1 ?st1'"
    have open1: "readyState ?st1 h \<noteq> WS_CLOSED"
      using assms(3) by (auto simp add: eq WS_OPEN_def WS_CONNECTING_def WS_CLOSED_def)
    have s2: "step (SocketCloses h ev r1) ?st1 = ?st2"
      using open1 by simp
    have pre: "\<not> explicitClose ?st1'" "truthyStr (currentJwtToken ?st1')"
      "\<not> truthyId (reconnectTimeoutId ?st1')"
      using h assms(1) by (simp_all add: eq)
    have nt: "nextTimerId ?st1' = nextTimerId st" and so: "socketsOpened (effects ?st1') = socketsOpened (effects st)"
      by (simp_all add: eq)
    from onSocketClose_schedules [OF pre, of ev r1]
    have f2: "socket ?st2 = None" "currentJwtToken ?st2 = Some tok"
      "nextTimerId st \<in> set (timeouts ?st2)"
      "socketsOpened (effects ?st2) = socketsOpened (effects st)"
      by (simp_all add: nt so) (simp_all add: eq)
    let ?st3 = "?st2\<lparr>timeouts := removeAll (nextTimerId st) (timeouts ?st2)\<rparr>"
    have s3: "step (TimeoutFires (nextTimerId st) Constructed r2) ?st2
                = reconnectCallback Constructed r2 ?st3"
      using f2(3) by simp
    have "socketsOpened (effects (reconnectCallback Constructed r2 ?st3))
            = socketsOpened (effects ?st3) @ [BASE_WEBSOCKET_URL @ ''?auth_token='' @ tok]"
      by (rule reconnectCallback_opens) (simp_all add: f2 assms(1))
    then have "socketsOpened (effects (reconnectCallback Constructed r2 ?st3))
            = socketsOpened (effects st) @ [BASE_WEBSOCKET_URL @ ''?auth_token='' @ tok]"
      by (simp add: f2)
    then show "socketsOpened (effects (run [Connect ctor rnd (Some tok), SocketCloses h ev r1,
                                         TimeoutFires (nextTimerId st) Constructed r2] st))
             = socketsOpened (effects st) @ [BASE_WEBSOCKET_URL @ ''?auth_token='' @ tok]"
      unfolding run_def by (simp only: fold_simps step.simps(1) s2 s3 o_apply id_apply)
  qed
qed

subsection \<open>The keep-alive loop\<close>

lemma keepAliveOk_init: "keepAliveOk init"
  by (simp add: keepAliveOk_def init_def)

lemma keepAliveOk_emit [simp]: "keepAliveOk (emit e st) = keepAliveOk st"
  by (simp add: keepAliveOk_def)

lemma startPing_fields [simp]:
  "socket (startPing st) = socket st"
  "currentStatus (startPing st) = currentStatus st"
  "reconnectTimeoutId (startPing st) = reconnectTimeoutId st"
  "currentJwtToken (startPing st) = currentJwtToken st"
  "pingIntervalId (startPing st) = Some (nextTimerId st)"
  by (simp_all add: startPing_def Let_def setInterval_def)

lemma keepAliveOk_onSocketOpen:
  "timersOk st \<Longrightarrow> keepAliveOk st \<Longrightarrow> keepAliveOk (onSocketOpen st)"
  using clearReconnect_reconnectTimeoutId
          [of "(updateStatus CONNECTED None st)\<lparr>currentReconnectDelay := RECONNECT_INITIAL_DELAY_MS\<rparr>"]
  by (simp add: keepAliveOk_def onSocketOpen_def)

lemma scheduleReconnect_fields:
  "socket (scheduleReconnect rnd st) = socket st"
  "pingIntervalId (scheduleReconnect rnd st) = pingIntervalId st"
  "currentJwtToken (scheduleReconnect rnd st) = currentJwtToken st"
  "explicitClose (scheduleReconnect rnd st) = explicitClose st"
  "currentStatus (scheduleReconnect rnd st) =
     (if explicitClose st \<or> \<not> truthyStr (currentJwtToken st) then IDLE else RECONNECTING)"
  "reconnectTimeoutId (scheduleReconnect rnd st) =
     (if explicitClose st \<or> \<not> truthyStr (currentJwtToken st) then reconnectTimeoutId st
      else Some (nextTimerId st))"
  by (simp_all add: scheduleReconnect_def Let_def setTimeout_def clearTimeout_def)

lemma keepAliveOk_connect:
  "timersOk st \<Longrightarrow> keepAliveOk st \<Longrightarrow> keepAliveOk (connect ctor rnd tok st)"
  by (cases ctor)
     (auto simp add: keepAliveOk_def connect_def Let_def scheduleReconnect_fields newWebSocket_def)

lemma keepAliveOk_reconnectCallback:
  "timersOk st \<Longrightarrow> keepAliveOk st \<Longrightarrow> i \<in> set (timeouts st) \<Longrightarrow>
   keepAliveOk (reconnectCallback ctor rnd (st\<lparr>timeouts := removeAll i (timeouts st)\<rparr>))"
proof -
  assume t: "timersOk st" and k: "keepAliveOk st" and i: "i \<in> set (timeouts st)"
  let ?st1 = "st\<lparr>timeouts := removeAll i (timeouts st), reconnectTimeoutId := None\<rparr>"
  have "reconnectTimeoutId st \<noteq> None"
    using t i by (cases "reconnectTimeoutId st") (simp_all add: timersOk_def)
  then have tok: "truthyStr (currentJwtToken st)"
    using k by (simp add: keepAliveOk_def)
  have "timersOk ?st1" using t i by (rule timersOk_reconnectFired)
  moreover have "keepAliveOk ?st1" using k by (simp add: keepAliveOk_def)
  ultimately have "keepAliveOk (connect ctor rnd (currentJwtToken st) ?st1)"
    by (rule keepAliveOk_connect)
  then show ?thesis using tok by (simp add: reconnectCallback_def Let_def)
qed

lemma keepAliveOk_onSocketClose:
  "timersOk st \<Longrightarrow> keepAliveOk st \<Longrightarrow> keepAliveOk (onSocketClose ev rnd st)"
  using stopPing_pingIntervalId [of st]
  by (auto simp add: keepAliveOk_def onSocketClose_def Let_def scheduleReconnect_fields)

lemma stopPing_idle: "\<not> truthyId (pingIntervalId st) \<Longrightarrow> stopPing st = st"
  by (simp add: stopPing_def)

lemma socketClose_fields [simp]:
  "socket (socketClose h c r st) = socket st"
  "currentStatus (socketClose h c r st) = currentStatus st"
  "pingIntervalId (socketClose h c r st) = pingIntervalId st"
  "reconnectTimeoutId (socketClose h c r st) = reconnectTimeoutId st"
  "currentJwtToken (socketClose h c r st) = currentJwtToken st"
  by (simp_all add: socketClose_def)

lemma keepAliveOk_fields [simp]:
  "keepAliveOk (st\<lparr>onStatusChangeCallback := c\<rparr>) = keepAliveOk st"
  "keepAliveOk (st\<lparr>currentReconnectDelay := d\<rparr>) = keepAliveOk st"
  "keepAliveOk (st\<lparr>explicitClose := e\<rparr>) = keepAliveOk st"
  "keepAliveOk (st\<lparr>readyStates := g\<rparr>) = keepAliveOk st"
  "keepAliveOk (st\<lparr>timeouts := i\<rparr>) = keepAliveOk st"
  "keepAliveOk (st\<lparr>intervals := j\<rparr>) = keepAliveOk st"
  "keepAliveOk (st\<lparr>nextTimerId := k\<rparr>) = keepAliveOk st"
  by (simp_all add: keepAliveOk_def)

lemma keepAliveOk_sendToServer [simp]: "keepAliveOk (sendToServer m st) = keepAliveOk st"
  by (simp add: sendToServer_def split: option.splits)

lemma keepAliveOk_setOnStatusChange [simp]: "keepAliveOk (setOnStatusChange cb st) = keepAliveOk st"
  by (simp add: setOnStatusChange_def Let_def)

lemma keepAliveOk_onSocketMessage [simp]: "keepAliveOk (fst (onSocketMessage f st)) = keepAliveOk st"
  by (simp add: onSocketMessage_def split: parsed_frame.splits)

lemma keepAliveOk_disconnect:
  "timersOk st \<Longrightarrow> keepAliveOk st \<Longrightarrow> keepAliveOk (disconnect rnd st)"
proof -
  assume t: "timersOk st" and k: "keepAliveOk st"
  let ?st0 = "st\<lparr>explicitClose := True, currentJwtToken := None\<rparr>"
  let ?st1 = "stopPing (clearReconnect ?st0)"
  have t0: "timersOk ?st0" using t by simp
  have "reconnectTimeoutId (clearReconnect ?st0) = None"
    using t0 by (rule clearReconnect_reconnectTimeoutId)
  then have r: "reconnectTimeoutId ?st1 = None" by simp
  have t1: "timersOk (clearReconnect ?st0)" using t0 by (rule timersOk_clearReconnect)
  have p: "pingIntervalId ?st1 = None"
    using t1 by (rule stopPing_pingIntervalId)
  have e: "explicitClose ?st1" by simp
  have idle: "stopPing ?st1 = ?st1" by (rule stopPing_idle) (simp add: p)
  show ?thesis
  proof (cases "socket st")
    case None
    then show ?thesis using r p by (simp add: disconnect_def Let_def keepAliveOk_def)
  next
    case (Some h)
    then have s1: "socket ?st1 = Some h" by simp
    show ?thesis
    proof (cases "readyState ?st1 h = WS_OPEN \<or> readyState ?st1 h = WS_CONNECTING")
      case True
      then show ?thesis using r p s1
        by (simp add: disconnect_def Let_def keepAliveOk_def)
    next
      case False
      have "onSocketClose \<lparr>code = 1000, reason = ''Client initiated disconnect on non-open socket''\<rparr> rnd ?st1
            = (updateStatus IDLE (Some (''Connection closed by client. Code: '' @ showNat 1000)) ?st1)
                \<lparr>explicitClose := False, socket := None\<rparr>"
        using r e by (simp add: onSocketClose_def Let_def idle)
      then show ?thesis using False r p s1
        by (simp add: disconnect_def Let_def keepAliveOk_def)
    qed
  qed
qed

lemma keepAliveOk_step:
  "timersOk st \<Longrightarrow> keepAliveOk st \<Longrightarrow> keepAliveOk (step e st)"
proof (cases e)
  case (Connect ctor rnd tok)
  assume "timersOk st" "keepAliveOk st"
  then show ?thesis using Connect by (simp add: keepAliveOk_connect)
next
  case (Disconnect rnd)
  assume "timersOk st" "keepAliveOk st"
  then show ?thesis using Disconnect by (simp add: keepAliveOk_disconnect)
next
  case (SocketOpens h)
  assume "timersOk st" "keepAliveOk st"
  then have "keepAliveOk (onSocketOpen (st\<lparr>readyStates := (readyStates st)[h := WS_OPEN]\<rparr>))"
    by (intro keepAliveOk_onSocketOpen) simp_all
  then show ?thesis using SocketOpens \<open>keepAliveOk st\<close> by simp
next
  case (SocketCloses h ev rnd)
  assume "timersOk st" "keepAliveOk st"
  then have "keepAliveOk (onSocketClose ev rnd (st\<lparr>readyStates := (readyStates st)[h := WS_CLOSED]\<rparr>))"
    by (intro keepAliveOk_onSocketClose) simp_all
  then show ?thesis using SocketCloses \<open>keepAliveOk st\<close> by simp
next
  case (TimeoutFires i ctor rnd)
  assume "timersOk st" "keepAliveOk st"
  then show ?thesis using TimeoutFires by (simp add: keepAliveOk_reconnectCallback)
qed (simp_all add: onSocketError_def pingCallback_def)

lemma keepAliveOk_run:
  "timersOk st \<Longrightarrow> keepAliveOk st \<Longrightarrow> keepAliveOk (run evs st)"
  unfolding run_def
  by (induction evs arbitrary: st) (simp_all add: keepAliveOk_step timersOk_step)

lemma onSocketOpen_starts:
  "pingIntervalId (onSocketOpen st) = Some (nextTimerId st)"
  "currentStatus (onSocketOpen st) = CONNECTED"
  "last (effects (onSocketOpen st)) = SetInterval (nextTimerId st) PING_INTERVAL_MS"
  by (simp_all add: onSocketOpen_def startPing_def Let_def setInterval_def)

lemma stopPing_stops: "\<not> truthyId (pingIntervalId (stopPing st))"
  by (simp add: stopPing_def)

lemma onSocketClose_stops: "\<not> truthyId (pingIntervalId (onSocketClose ev rnd st))"
  using stopPing_stops [of st]
  by (simp add: onSocketClose_def Let_def scheduleReconnect_fields)

lemma disconnect_stops: "\<not> truthyId (pingIntervalId (disconnect rnd st))"
  using stopPing_stops [of "clearReconnect (st\<lparr>explicitClose := True, currentJwtToken := None\<rparr>)"]
    onSocketClose_stops [of "\<lparr>code = 1000, reason = ''Client initiated disconnect on non-open socket''\<rparr>" rnd
      "stopPing (clearReconnect (st\<lparr>explicitClose := True, currentJwtToken := None\<rparr>))"]
  by (simp add: disconnect_def Let_def split: option.splits)

lemma tick_frames:
  "framesSent (effects (step (IntervalFires i) st)) =
     framesSent (effects st)
       @ (case socket st of
            Some h \<Rightarrow> if i \<in> set (intervals st) \<and> readyState st h = WS_OPEN then [(h, Ping)] else []
          | None \<Rightarrow> [])"
  by (simp add: pingCallback_def sendToServer_def split: option.splits)

subsection \<open>Statuses without an open socket\<close>

lemma quietOk_init: "quietOk init"
  by (simp add: quietOk_def init_def)

lemma socketOpen_emit [simp]: "socketOpen (emit e st) = socketOpen st"
  by (simp add: socketOpen_def split: option.splits)

lemma socketOpen_updateStatus [simp]: "socketOpen (updateStatus s d st) = socketOpen st"
  by (simp add: socketOpen_def split: option.splits)

lemma socketOpen_stopPing [simp]: "socketOpen (stopPing st) = socketOpen st"
  by (simp add: socketOpen_def split: option.splits)

lemma socketOpen_clearReconnect [simp]: "socketOpen (clearReconnect st) = socketOpen st"
  by (simp add: socketOpen_def split: option.splits)

lemma socketOpen_fields [simp]:
  "socketOpen (st\<lparr>currentStatus := b\<rparr>) = socketOpen st"
  "socketOpen (st\<lparr>reconnectTimeoutId := e\<rparr>) = socketOpen st"
  "socketOpen (st\<lparr>explicitClose := f\<rparr>) = socketOpen st"
  "socketOpen (st\<lparr>currentJwtToken := g\<rparr>) = socketOpen st"
  "socketOpen (st\<lparr>timeouts := i\<rparr>) = socketOpen st"
  "socketOpen (st\<lparr>onStatusChangeCallback := c\<rparr>) = socketOpen st"
  "\<not> socketOpen (st\<lparr>socket := None\<rparr>)"
  by (simp_all add: socketOpen_def readyState_def split: option.splits)

lemma socketOpen_scheduleReconnect [simp]: "socketOpen (scheduleReconnect rnd st) = socketOpen st"
  by (simp add: socketOpen_def scheduleReconnect_fields scheduleReconnect_def Let_def setTimeout_def
        clearTimeout_def readyState_def split: option.splits)

lemma socketOpen_shut:
  "v \<noteq> WS_OPEN \<Longrightarrow> socketOpen (st\<lparr>readyStates := (readyStates st)[h := v]\<rparr>) \<Longrightarrow> socketOpen st"
proof -
  assume v: "v \<noteq> WS_OPEN" and o: "socketOpen (st\<lparr>readyStates := (readyStates st)[h := v]\<rparr>)"
  from o obtain k where k: "socket st = Some k" "k < length (readyStates st)"
    "(readyStates st)[h := v] ! k = WS_OPEN"
    by (auto simp add: socketOpen_def readyState_def WS_OPEN_def WS_CLOSED_def
          split: option.splits if_splits)
  have "k \<noteq> h" using k v by auto
  then have "readyStates st ! k = WS_OPEN" using k by simp
  then show ?thesis using k by (simp add: socketOpen_def readyState_def)
qed

lemma quietOk_emit [simp]: "quietOk (emit e st) = quietOk st"
  by (simp add: quietOk_def)

lemma quietOk_fields [simp]:
  "quietOk (st\<lparr>reconnectTimeoutId := e\<rparr>) = quietOk st"
  "quietOk (st\<lparr>explicitClose := f\<rparr>) = quietOk st"
  "quietOk (st\<lparr>currentJwtToken := g\<rparr>) = quietOk st"
  "quietOk (st\<lparr>timeouts := i\<rparr>) = quietOk st"
  "quietOk (st\<lparr>onStatusChangeCallback := c\<rparr>) = quietOk st"
  by (simp_all add: quietOk_def)

lemma quietOk_shut:
  "v \<noteq> WS_OPEN \<Longrightarrow> quietOk st \<Longrightarrow> quietOk (st\<lparr>readyStates := (readyStates st)[h := v]\<rparr>)"
  using socketOpen_shut [of v st h] by (auto simp add: quietOk_def)

lemma quietOk_connect: "quietOk st \<Longrightarrow> quietOk (connect ctor rnd tok st)"
proof (cases "truthyStr tok")
  case False
  then show ?thesis by (simp add: connect_def quietOk_def)
next
  case True
  assume q: "quietOk st"
  let ?st1 = "st\<lparr>currentJwtToken := tok\<rparr>"
  show ?thesis
  proof (cases "case socket ?st1 of None \<Rightarrow> False
                | Some h \<Rightarrow> readyState ?st1 h = WS_OPEN \<or> readyState ?st1 h = WS_CONNECTING")
    case True
    then have "connect ctor rnd tok st =
                 emit (ConsoleLog ''WebSocket Proxy: Already connected or connecting.'') ?st1"
      using \<open>truthyStr tok\<close> by (simp add: connect_def Let_def)
    then show ?thesis using q by simp
  next
    case False
    then have no: "\<not> socketOpen st"
      by (simp add: socketOpen_def split: option.splits)
    show ?thesis
    proof (cases ctor)
      case Constructed
      then show ?thesis using False \<open>truthyStr tok\<close>
        by (simp add: connect_def Let_def quietOk_def newWebSocket_def socketOpen_def readyState_def
              WS_CONNECTING_def WS_OPEN_def)
    next
      case (Throws msg)
      then show ?thesis using False \<open>truthyStr tok\<close> no
        by (simp add: connect_def Let_def quietOk_def scheduleReconnect_fields)
    qed
  qed
qed

lemma quietOk_reconnectCallback: "quietOk st \<Longrightarrow> quietOk (reconnectCallback ctor rnd st)"
  using quietOk_connect [of "st\<lparr>reconnectTimeoutId := None\<rparr>" ctor rnd "currentJwtToken st"]
  by (simp add: reconnectCallback_def Let_def) (simp add: quietOk_def)

lemma quietOk_onSocketClose: "quietOk st \<Longrightarrow> quietOk (onSocketClose ev rnd st)"
  by (simp add: onSocketClose_def Let_def quietOk_def scheduleReconnect_fields)

lemma quietOk_disconnect: "quietOk st \<Longrightarrow> quietOk (disconnect rnd st)"
  by (simp add: disconnect_def Let_def quietOk_def onSocketClose_def split: option.splits)

lemma quietOk_onSocketOpen: "quietOk (onSocketOpen st)"
  by (simp add: quietOk_def onSocketOpen_starts)

lemma quietOk_step: "quietOk st \<Longrightarrow> quietOk (step e st)"
proof (cases e)
  case (SocketOpens h)
  assume "quietOk st"
  then show ?thesis using SocketOpens by (simp add: quietOk_onSocketOpen)
next
  case (SocketStartsClosing h)
  assume "quietOk st"
  then show ?thesis using SocketStartsClosing
    by (simp add: quietOk_shut WS_CLOSING_def WS_OPEN_def)
next
  case (SocketCloses h ev rnd)
  assume "quietOk st"
  then have "quietOk (st\<lparr>readyStates := (readyStates st)[h := WS_CLOSED]\<rparr>)"
    by (intro quietOk_shut) (simp_all add: WS_CLOSED_def WS_OPEN_def)
  then have "quietOk (onSocketClose ev rnd (st\<lparr>readyStates := (readyStates st)[h := WS_CLOSED]\<rparr>))"
    by (rule quietOk_onSocketClose)
  then show ?thesis using SocketCloses \<open>quietOk st\<close> by simp
next
  case (SetOnStatusChange cb)
  assume "quietOk st"
  then show ?thesis using SetOnStatusChange by (simp add: setOnStatusChange_def Let_def)
next
  case (SocketMessage h f)
  assume "quietOk st"
  then show ?thesis using SocketMessage
    by (simp add: onSocketMessage_def split: parsed_frame.splits)
next
  case (BridgeSends m)
  assume "quietOk st"
  then show ?thesis using BridgeSends by (simp add: sendToServer_def split: option.splits)
next
  case (IntervalFires i)
  assume "quietOk st"
  then show ?thesis using IntervalFires
    by (simp add: pingCallback_def sendToServer_def split: option.splits)
qed (simp_all add: quietOk_connect quietOk_disconnect quietOk_reconnectCallback onSocketError_def)

lemma quietOk_run: "quietOk st \<Longrightarrow> quietOk (run evs st)"
  unfolding run_def by (induction evs arbitrary: st) (simp_all add: quietOk_step)

lemma tick_quiet: "\<not> socketOpen st \<Longrightarrow> framesSent (effects (step (IntervalFires i) st)) = framesSent (effects st)"
  by (simp add: pingCallback_def sendToServer_def socketOpen_def split: option.splits)

lemma tick_idle: "intervals st = [] \<Longrightarrow> framesSent (effects (step (IntervalFires i) st)) = framesSent (effects st)"
  by simp

section \<open>The connection state machine: claims\<close>

text \<open>
  Claim C1. After any transport open the stored reconnect delay is the floor
  (\<open>RECONNECT_INITIAL_DELAY_MS\<close>), whatever it was before. In every run without a
  transport open that starts in a state whose delay is the floor, the base delays (the
  non-jittered components) of the reconnect timers scheduled during the run are, in order,
  \<open>min (floor * 2 ^ i) ceiling\<close> for \<open>i = 0, 1, ...\<close>: the \<open>n\<close>th is
  \<open>min (floor * 2 ^ (n - 1)) ceiling\<close>. A transport close that is not explicit, with a
  token stored and no reconnect timer pending, schedules exactly one timer, whose delay is
  the stored delay plus the jitter \<open>Math.random() * RECONNECT_JITTER_MS\<close>.
\<close>

theorem backoff_schedule:
  "currentReconnectDelay (onSocketOpen st0) = RECONNECT_INITIAL_DELAY_MS
   \<and> (currentReconnectDelay st = RECONNECT_INITIAL_DELAY_MS \<and> (\<forall>e \<in> set evs. \<not> isSocketOpens e) \<longrightarrow>
        take (length (scheduledBases (effects st))) (scheduledBases (effects (run evs st)))
          = scheduledBases (effects st)
        \<and> drop (length (scheduledBases (effects st))) (scheduledBases (effects (run evs st)))
          = map (\<lambda>i. min (RECONNECT_INITIAL_DELAY_MS * 2 ^ i) RECONNECT_MAX_DELAY_MS)
              [0..<length (scheduledBases (effects (run evs st))) - length (scheduledBases (effects st))])
   \<and> (\<not> explicitClose st \<and> truthyStr (currentJwtToken st) \<and> \<not> truthyId (reconnectTimeoutId st) \<longrightarrow>
        last (effects (onSocketClose ev rnd st))
          = SetTimeout (nextTimerId st) (currentReconnectDelay st) (rnd * of_nat RECONNECT_JITTER_MS)
        \<and> scheduledBases (effects (onSocketClose ev rnd st))
          = scheduledBases (effects st) @ [currentReconnectDelay st])"
proof (intro conjI impI)
  have "snd (sched (onSocketOpen st0)) = RECONNECT_INITIAL_DELAY_MS"
    by (simp add: onSocketOpen_def startPing_def Let_def setInterval_def sched_emit)
       (simp add: sched_def)
  then show "currentReconnectDelay (onSocketOpen st0) = RECONNECT_INITIAL_DELAY_MS"
    by (simp add: sched_def)
next
  assume h: "currentReconnectDelay st = RECONNECT_INITIAL_DELAY_MS \<and> (\<forall>e \<in> set evs. \<not> isSocketOpens e)"
  have "sched st = (scheduledBases (effects st) @ map backoff [0..<0], backoff 0)"
    using h by (simp add: sched_def backoff_def RECONNECT_INITIAL_DELAY_MS_def RECONNECT_MAX_DELAY_MS_def)
  then obtain k where
    "sched (run evs st) = (scheduledBases (effects st) @ map backoff [0..<k], backoff k)"
    using sched_run [of evs st "scheduledBases (effects st)" 0] h by blast
  then have eq: "scheduledBases (effects (run evs st)) = scheduledBases (effects st) @ map backoff [0..<k]"
    by (simp add: sched_def)
  show "take (length (scheduledBases (effects st))) (scheduledBases (effects (run evs st)))
          = scheduledBases (effects st)"
    by (simp add: eq)
  have "backoff = (\<lambda>i. min (RECONNECT_INITIAL_DELAY_MS * 2 ^ i) RECONNECT_MAX_DELAY_MS)"
    by (rule ext) (simp add: backoff_def)
  then show "drop (length (scheduledBases (effects st))) (scheduledBases (effects (run evs st)))
          = map (\<lambda>i. min (RECONNECT_INITIAL_DELAY_MS * 2 ^ i) RECONNECT_MAX_DELAY_MS)
              [0..<length (scheduledBases (effects (run evs st))) - length (scheduledBases (effects st))]"
    by (simp add: eq)
next
  assume h: "\<not> explicitClose st \<and> truthyStr (currentJwtToken st) \<and> \<not> truthyId (reconnectTimeoutId st)"
  then show "last (effects (onSocketClose ev rnd st))
          = SetTimeout (nextTimerId st) (currentReconnectDelay st) (rnd * of_nat RECONNECT_JITTER_MS)"
    by (simp add: onSocketClose_def Let_def scheduleReconnect_last)
next
  assume h: "\<not> explicitClose st \<and> truthyStr (currentJwtToken st) \<and> \<not> truthyId (reconnectTimeoutId st)"
  then have "sched (onSocketClose ev rnd st) = nextSched (sched st)"
    by (simp add: onSocketClose_def Let_def sched_scheduleReconnect)
  then show "scheduledBases (effects (onSocketClose ev rnd st))
          = scheduledBases (effects st) @ [currentReconnectDelay st]"
    by (simp add: sched_def nextSched_def)
qed

theorem backoff_schedule_witness:
  "currentReconnectDelay (step (Connect Constructed 0 (Some ''t'')) init) = RECONNECT_INITIAL_DELAY_MS
   \<and> filter isSocketOpens [SocketCloses 0 \<lparr>code = 1006, reason = []\<rparr> (1/4),
          TimeoutFires 1 Constructed 0, SocketCloses 1 \<lparr>code = 1006, reason = []\<rparr> (1/2)] = []
   \<and> scheduledBases (effects (run [SocketCloses 0 \<lparr>code = 1006, reason = []\<rparr> (1/4),
          TimeoutFires 1 Constructed 0, SocketCloses 1 \<lparr>code = 1006, reason = []\<rparr> (1/2)]
          (step (Connect Constructed 0 (Some ''t'')) init))) = [1000, 2000]
   \<and> \<not> explicitClose (step (Connect Constructed 0 (Some ''t'')) init)
   \<and> truthyStr (currentJwtToken (step (Connect Constructed 0 (Some ''t'')) init))
   \<and> \<not> truthyId (reconnectTimeoutId (step (Connect Constructed 0 (Some ''t'')) init))
   \<and> last (effects (onSocketClose \<lparr>code = 1006, reason = []\<rparr> (1/4)
               (step (Connect Constructed 0 (Some ''t'')) init))) = SetTimeout 1 1000 125
   \<and> currentReconnectDelay (onSocketOpen init) = 1000"
  using backoff_schedule [of init "step (Connect Constructed 0 (Some ''t'')) init"
      "[SocketCloses 0 \<lparr>code = 1006, reason = []\<rparr> (1/4), TimeoutFires 1 Constructed 0,
        SocketCloses 1 \<lparr>code = 1006, reason = []\<rparr> (1/2)]" "\<lparr>code = 1006, reason = []\<rparr>" "1/4"]
  by (simp add: run_def init_def eval_defs)

text \<open>
  Claim C6. While a reconnect timer is pending, a transport close event only stops the
  keep-alive loop: the status, the socket, the pending timer and the stored delay stay as
  they are, and nothing but the clearing of a running keep-alive interval is added to the
  trace. In every state reachable from the initial one at most one reconnect timer is
  pending.
\<close>

theorem duplicate_close_ignored:
  "(truthyId (reconnectTimeoutId st) \<longrightarrow>
      onSocketClose ev rnd st = stopPing st
      \<and> currentStatus (onSocketClose ev rnd st) = currentStatus st
      \<and> socket (onSocketClose ev rnd st) = socket st
      \<and> explicitClose (onSocketClose ev rnd st) = explicitClose st
      \<and> reconnectTimeoutId (onSocketClose ev rnd st) = reconnectTimeoutId st
      \<and> timeouts (onSocketClose ev rnd st) = timeouts st
      \<and> currentReconnectDelay (onSocketClose ev rnd st) = currentReconnectDelay st
      \<and> effects (onSocketClose ev rnd st) =
          effects st @ (if truthyId (pingIntervalId st) then [ClearInterval (the (pingIntervalId st))] else []))
   \<and> length (timeouts (run evs init)) \<le> 1"
proof (intro conjI impI)
  assume h: "truthyId (reconnectTimeoutId st)"
  then show eq: "onSocketClose ev rnd st = stopPing st"
    by (simp add: onSocketClose_def Let_def)
  show "currentStatus (onSocketClose ev rnd st) = currentStatus st"
    and "socket (onSocketClose ev rnd st) = socket st"
    and "explicitClose (onSocketClose ev rnd st) = explicitClose st"
    and "reconnectTimeoutId (onSocketClose ev rnd st) = reconnectTimeoutId st"
    and "timeouts (onSocketClose ev rnd st) = timeouts st"
    and "currentReconnectDelay (onSocketClose ev rnd st) = currentReconnectDelay st"
    by (simp_all add: eq)
  show "effects (onSocketClose ev rnd st) =
          effects st @ (if truthyId (pingIntervalId st) then [ClearInterval (the (pingIntervalId st))] else [])"
    by (simp add: eq stopPing_effects)
next
  have "timersOk (run evs init)"
    by (rule timersOk_run) (rule timersOk_init)
  then show "length (timeouts (run evs init)) \<le> 1"
    by (cases "reconnectTimeoutId (run evs init)") (simp_all add: timersOk_def)
qed

theorem duplicate_close_ignored_witness:
  "truthyId (reconnectTimeoutId (run [Connect Constructed 0 (Some ''t''),
       SocketCloses 0 \<lparr>code = 1006, reason = []\<rparr> (1/4)] init))
   \<and> currentStatus (onSocketClose \<lparr>code = 1006, reason = []\<rparr> (1/2)
        (run [Connect Constructed 0 (Some ''t''), SocketCloses 0 \<lparr>code = 1006, reason = []\<rparr> (1/4)] init))
      = RECONNECTING
   \<and> timeouts (onSocketClose \<lparr>code = 1006, reason = []\<rparr> (1/2)
        (run [Connect Constructed 0 (Some ''t''), SocketCloses 0 \<lparr>code = 1006, reason = []\<rparr> (1/4)] init))
      = [1]
   \<and> currentReconnectDelay (onSocketClose \<lparr>code = 1006, reason = []\<rparr> (1/2)
        (run [Connect Constructed 0 (Some ''t''), SocketCloses 0 \<lparr>code = 1006, reason = []\<rparr> (1/4)] init))
      = 2000
   \<and> length (timeouts (run [Connect Constructed 0 (Some ''t''),
       SocketCloses 0 \<lparr>code = 1006, reason = []\<rparr> (1/4)] init)) \<le> 1"
  using duplicate_close_ignored [of "run [Connect Constructed 0 (Some ''t''),
       SocketCloses 0 \<lparr>code = 1006, reason = []\<rparr> (1/4)] init" "\<lparr>code = 1006, reason = []\<rparr>" "1/2"
       "[Connect Constructed 0 (Some ''t''), SocketCloses 0 \<lparr>code = 1006, reason = []\<rparr> (1/4)]"]
  by (simp add: run_def init_def eval_defs)

text \<open>
  Claim C7. \<open>connect\<close> with a missing or empty token, from any state, sets the status
  to \<open>ERROR\<close> with the detail that the token is required, constructs no socket and
  leaves the current socket and the stored token as they are.
\<close>

theorem connect_without_token:
  "jwtToken = None \<or> jwtToken = Some [] \<Longrightarrow>
     currentStatus (connect ctor rnd jwtToken st) = ERROR
     \<and> effects (connect ctor rnd jwtToken st) =
         effects st @ (if onStatusChangeCallback st
                       then [StatusCallback ERROR (Some ''JWT Token is required to connect.'')] else [])
                    @ [ConsoleLog ''WebSocket Proxy Status'']
     \<and> socketsOpened (effects (connect ctor rnd jwtToken st)) = socketsOpened (effects st)
     \<and> readyStates (connect ctor rnd jwtToken st) = readyStates st
     \<and> socket (connect ctor rnd jwtToken st) = socket st
     \<and> currentJwtToken (connect ctor rnd jwtToken st) = currentJwtToken st"
  by (auto simp add: connect_def updateStatus_effects)

theorem connect_without_token_witness:
  "(Some [] = (None :: string option) \<or> Some [] = Some ([] :: string))
   \<and> currentStatus (connect Constructed 0 (Some []) (init\<lparr>onStatusChangeCallback := True\<rparr>)) = ERROR
   \<and> effects (connect Constructed 0 (Some []) (init\<lparr>onStatusChangeCallback := True\<rparr>)) =
       [StatusCallback ERROR (Some ''JWT Token is required to connect.''),
        ConsoleLog ''WebSocket Proxy Status'']
   \<and> readyStates (connect Constructed 0 (Some []) (init\<lparr>onStatusChangeCallback := True\<rparr>)) = []"
  using connect_without_token [of "Some []" Constructed 0 "init\<lparr>onStatusChangeCallback := True\<rparr>"]
  by (simp add: init_def)

text \<open>
  Claim C8. A frame that is not JSON, the value \<open>null\<close>, and a message whose type is
  neither \<open>http_request\<close> nor \<open>pong\<close> add one line to the console and nothing else:
  the session is otherwise unchanged (status, socket and ready states included), no
  command is handed to the bridge, and no frame is sent.
\<close>

theorem unknown_frames_dropped:
  "frameType frame \<noteq> Some ''http_request'' \<Longrightarrow> frameType frame \<noteq> Some ''pong'' \<Longrightarrow>
     onSocketMessage frame st =
       (st\<lparr>effects := effects st @
           [if frame = JsonSyntaxError \<or> frame = JsonNull
            then ConsoleError ''WebSocket Proxy: Error parsing message from server or handling it:''
            else ConsoleWarn ''WebSocket Proxy: Received unknown message type'']\<rparr>, None)
     \<and> framesSent (effects (fst (onSocketMessage frame st))) = framesSent (effects st)"
  by (cases frame) (simp_all add: onSocketMessage_def frameType_def emit_def)

theorem unknown_frames_dropped_witness:
  "frameType (JsonMessage (Some ''hello'') None) \<noteq> Some ''http_request''
   \<and> frameType (JsonMessage (Some ''hello'') None) \<noteq> Some ''pong''
   \<and> onSocketMessage (JsonMessage (Some ''hello'') None) init =
       (init\<lparr>effects := [ConsoleWarn ''WebSocket Proxy: Received unknown message type'']\<rparr>, None)
   \<and> onSocketMessage JsonSyntaxError init =
       (init\<lparr>effects := [ConsoleError ''WebSocket Proxy: Error parsing message from server or handling it:'']\<rparr>, None)"
  using unknown_frames_dropped [of "JsonMessage (Some ''hello'') None" init]
    unknown_frames_dropped [of JsonSyntaxError init]
  by (simp add: frameType_def init_def)

text \<open>
  Claim C9. \<open>disconnect\<close> in a state that holds no socket, or a socket that is neither
  open nor connecting, ends in status \<open>IDLE\<close> with no socket held; it constructs no
  socket, leaves every socket's ready state as it is, and clears the token. The handler has
  no operation that throws.
\<close>

theorem disconnect_without_transport:
  "socket st = None
   \<or> (\<exists>h. socket st = Some h \<and> readyState st h \<noteq> WS_OPEN \<and> readyState st h \<noteq> WS_CONNECTING) \<Longrightarrow>
     currentStatus (disconnect rnd st) = IDLE
     \<and> socket (disconnect rnd st) = None
     \<and> readyStates (disconnect rnd st) = readyStates st
     \<and> socketsOpened (effects (disconnect rnd st)) = socketsOpened (effects st)
     \<and> currentJwtToken (disconnect rnd st) = None
     \<and> \<not> truthyId (reconnectTimeoutId (disconnect rnd st))"
  by (auto simp add: disconnect_socketsOpened)
     (simp_all add: disconnect_def Let_def onSocketClose_def)

theorem disconnect_without_transport_witness:
  "socket init = None
   \<and> currentStatus (disconnect 0 init) = IDLE
   \<and> readyStates (disconnect 0 init) = []
   \<and> effects (disconnect 0 init) = [ConsoleLog ''WebSocket Proxy Status'']
   \<and> socket (run [Connect Constructed 0 (Some ''t''), SocketOpens 0, SocketStartsClosing 0] init) = Some 0
   \<and> readyState (run [Connect Constructed 0 (Some ''t''), SocketOpens 0, SocketStartsClosing 0] init) 0
        = WS_CLOSING
   \<and> currentStatus (disconnect 0
        (run [Connect Constructed 0 (Some ''t''), SocketOpens 0, SocketStartsClosing 0] init)) = IDLE
   \<and> readyStates (disconnect 0
        (run [Connect Constructed 0 (Some ''t''), SocketOpens 0, SocketStartsClosing 0] init)) = [2]"
  using disconnect_without_transport [of init 0]
    disconnect_without_transport
      [of "run [Connect Constructed 0 (Some ''t''), SocketOpens 0, SocketStartsClosing 0] init" 0]
  by (simp add: run_def init_def eval_defs)

text \<open>
  Claim C10. \<open>connect\<close> with a non-empty token, while the socket held is open or
  connecting, returns after storing the token: no socket is constructed, and the status,
  the socket and the explicit-close flag are unchanged. The reconnect that follows the
  next close of the socket opens its transport with the token just stored.
\<close>

theorem connect_while_connected:
  "tok \<noteq> [] \<and> socket st = Some h \<and> (readyState st h = WS_OPEN \<or> readyState st h = WS_CONNECTING) \<longrightarrow>
     connect ctor rnd (Some tok) st =
       emit (ConsoleLog ''WebSocket Proxy: Already connected or connecting.'')
         (st\<lparr>currentJwtToken := Some tok\<rparr>)
     \<and> socketsOpened (effects (connect ctor rnd (Some tok) st)) = socketsOpened (effects st)
     \<and> readyStates (connect ctor rnd (Some tok) st) = readyStates st
     \<and> socket (connect ctor rnd (Some tok) st) = socket st
     \<and> currentStatus (connect ctor rnd (Some tok) st) = currentStatus st
     \<and> explicitClose (connect ctor rnd (Some tok) st) = explicitClose st
     \<and> currentJwtToken (connect ctor rnd (Some tok) st) = Some tok
     \<and> (\<not> explicitClose st \<and> \<not> truthyId (reconnectTimeoutId st) \<longrightarrow>
           socketsOpened (effects (run [Connect ctor rnd (Some tok), SocketCloses h ev r1,
                                         TimeoutFires (nextTimerId st) Constructed r2] st))
             = socketsOpened (effects st) @ [BASE_WEBSOCKET_URL @ ''?auth_token='' @ tok])"
proof
  assume a: "tok \<noteq> [] \<and> socket st = Some h \<and> (readyState st h = WS_OPEN \<or> readyState st h = WS_CONNECTING)"
  then have a1: "tok \<noteq> []" and a2: "socket st = Some h"
    and a3: "readyState st h = WS_OPEN \<or> readyState st h = WS_CONNECTING"
    by simp_all
  note r = connect_early_return [OF a1 a2 a3]
  show "connect ctor rnd (Some tok) st =
       emit (ConsoleLog ''WebSocket Proxy: Already connected or connecting.'')
         (st\<lparr>currentJwtToken := Some tok\<rparr>)
     \<and> socketsOpened (effects (connect ctor rnd (Some tok) st)) = socketsOpened (effects st)
     \<and> readyStates (connect ctor rnd (Some tok) st) = readyStates st
     \<and> socket (connect ctor rnd (Some tok) st) = socket st
     \<and> currentStatus (connect ctor rnd (Some tok) st) = currentStatus st
     \<and> explicitClose (connect ctor rnd (Some tok) st) = explicitClose st
     \<and> currentJwtToken (connect ctor rnd (Some tok) st) = Some tok
     \<and> (\<not> explicitClose st \<and> \<not> truthyId (reconnectTimeoutId st) \<longrightarrow>
           socketsOpened (effects (run [Connect ctor rnd (Some tok), SocketCloses h ev r1,
                                         TimeoutFires (nextTimerId st) Constructed r2] st))
             = socketsOpened (effects st) @ [BASE_WEBSOCKET_URL @ ''?auth_token='' @ tok])"
    by (intro conjI) (rule r)+
qed

theorem connect_while_connected_witness:
  "''u'' \<noteq> []
   \<and> socket (step (Connect Constructed 0 (Some ''t'')) init) = Some 0
   \<and> readyState (step (Connect Constructed 0 (Some ''t'')) init) 0 = WS_CONNECTING
   \<and> \<not> explicitClose (step (Connect Constructed 0 (Some ''t'')) init)
   \<and> \<not> truthyId (reconnectTimeoutId (step (Connect Constructed 0 (Some ''t'')) init))
   \<and> currentJwtToken (connect Constructed 0 (Some ''u'') (step (Connect Constructed 0 (Some ''t'')) init))
       = Some ''u''
   \<and> currentStatus (connect Constructed 0 (Some ''u'') (step (Connect Constructed 0 (Some ''t'')) init))
       = CONNECTING
   \<and> readyStates (connect Constructed 0 (Some ''u'') (step (Connect Constructed 0 (Some ''t'')) init)) = [0]
   \<and> socketsOpened (effects (run [Connect Constructed 0 (Some ''u''),
         SocketCloses 0 \<lparr>code = 1006, reason = []\<rparr> (1/4), TimeoutFires 1 Constructed 0]
         (step (Connect Constructed 0 (Some ''t'')) init)))
       = [''wss://lbls888-cliproxyapi.hf.space/v1/ws?auth_token=t'',
          ''wss://lbls888-cliproxyapi.hf.space/v1/ws?auth_token=u'']"
  using connect_while_connected [of "''u''" "step (Connect Constructed 0 (Some ''t'')) init" 0
      Constructed 0 "\<lparr>code = 1006, reason = []\<rparr>" "1/4" 0]
  by (simp add: run_def init_def eval_defs)

text \<open>
  Claim C5, as stated, fails in both directions. After \<open>disconnect\<close> on an open socket
  the loop is stopped while the status still reads \<open>CONNECTED\<close> (until the close event
  arrives). After \<open>connect\<close> without a token on a connected session the status is
  \<open>ERROR\<close> while the loop still runs and its next tick sends a ping. After \<open>connect\<close>
  on a connected session whose socket has begun to close, the loop still runs in status
  \<open>CONNECTING\<close>, or in \<open>RECONNECTING\<close> when the constructor throws.
\<close>

theorem keepalive_iff_connected_counterexample:
  "currentStatus (run [Connect Constructed 0 (Some ''t''), SocketOpens 0, Disconnect 0] init) = CONNECTED
   \<and> pingIntervalId (run [Connect Constructed 0 (Some ''t''), SocketOpens 0, Disconnect 0] init) = None
   \<and> intervals (run [Connect Constructed 0 (Some ''t''), SocketOpens 0, Disconnect 0] init) = []
   \<and> currentStatus (run [Connect Constructed 0 (Some ''t''), SocketOpens 0, Connect Constructed 0 None] init)
       = ERROR
   \<and> intervals (run [Connect Constructed 0 (Some ''t''), SocketOpens 0, Connect Constructed 0 None] init)
       = [1]
   \<and> framesSent (effects (run [Connect Constructed 0 (Some ''t''), SocketOpens 0, Connect Constructed 0 None,
         IntervalFires 1] init)) = [(0, Ping)]
   \<and> currentStatus (run [Connect Constructed 0 (Some ''t''), SocketOpens 0, SocketStartsClosing 0,
         Connect Constructed 0 (Some ''t'')] init) = CONNECTING
   \<and> intervals (run [Connect Constructed 0 (Some ''t''), SocketOpens 0, SocketStartsClosing 0,
         Connect Constructed 0 (Some ''t'')] init) = [1]
   \<and> currentStatus (run [Connect Constructed 0 (Some ''t''), SocketOpens 0, SocketStartsClosing 0,
         Connect (Throws ''x'') 0 (Some ''t'')] init) = RECONNECTING
   \<and> intervals (run [Connect Constructed 0 (Some ''t''), SocketOpens 0, SocketStartsClosing 0,
         Connect (Throws ''x'') 0 (Some ''t'')] init) = [1]"
  by (simp add: run_def init_def eval_defs)

text \<open>
  Claim C5, amended. A transport open starts the keep-alive loop with the period
  \<open>PING_INTERVAL_MS\<close> and sets the status to \<open>CONNECTED\<close>; every transport close event
  and every \<open>disconnect\<close> leaves no loop running. In every state reachable from the
  initial one: the running loops are exactly the one the module remembers (at most one);
  the status is not \<open>DISCONNECTED\<close> (the handler that sets it moves on within the same
  event, after it has stopped the loop); no loop runs while the status is \<open>IDLE\<close>; a
  tick sends no ping while the status is \<open>IDLE\<close>, \<open>CONNECTING\<close> or \<open>RECONNECTING\<close>; a
  loop runs while the status is \<open>CONNECTED\<close> and a socket is held; and while the status
  is \<open>CONNECTED\<close> and the socket held is open, the tick of the one running loop sends
  exactly one ping. In any state a tick sends one ping when its loop is running and the
  socket held is open, and nothing otherwise. Nothing is said about the status \<open>ERROR\<close>.
\<close>

theorem keepalive_loop:
  "pingIntervalId (onSocketOpen st) = Some (nextTimerId st)
   \<and> currentStatus (onSocketOpen st) = CONNECTED
   \<and> last (effects (onSocketOpen st)) = SetInterval (nextTimerId st) PING_INTERVAL_MS
   \<and> \<not> truthyId (pingIntervalId (onSocketClose ev rnd st))
   \<and> \<not> truthyId (pingIntervalId (disconnect rnd st))
   \<and> intervals (run evs init) = pendingId (pingIntervalId (run evs init))
   \<and> currentStatus (run evs init) \<noteq> DISCONNECTED
   \<and> (currentStatus (run evs init) = IDLE \<longrightarrow> intervals (run evs init) = [])
   \<and> (currentStatus (run evs init) = IDLE \<or> currentStatus (run evs init) = CONNECTING
        \<or> currentStatus (run evs init) = RECONNECTING \<longrightarrow>
        framesSent (effects (step (IntervalFires i) (run evs init))) = framesSent (effects (run evs init)))
   \<and> (currentStatus (run evs init) = CONNECTED \<and> socket (run evs init) \<noteq> None
        \<longrightarrow> intervals (run evs init) \<noteq> [])
   \<and> (currentStatus (run evs init) = CONNECTED \<and> socket (run evs init) = Some h
        \<and> readyState (run evs init) h = WS_OPEN \<longrightarrow>
        (\<exists>j. intervals (run evs init) = [j]
           \<and> framesSent (effects (step (IntervalFires j) (run evs init)))
               = framesSent (effects (run evs init)) @ [(h, Ping)]))
   \<and> framesSent (effects (step (IntervalFires i) st)) =
        framesSent (effects st)
          @ (case socket st of
               Some h \<Rightarrow> if i \<in> set (intervals st) \<and> readyState st h = WS_OPEN then [(h, Ping)] else []
             | None \<Rightarrow> [])"
proof -
  let ?s = "run evs init"
  have t: "timersOk ?s"
    by (rule timersOk_run) (rule timersOk_init)
  have k: "keepAliveOk ?s"
    by (rule keepAliveOk_run) (rule timersOk_init, rule keepAliveOk_init)
  have q: "quietOk ?s"
    by (rule quietOk_run) (rule quietOk_init)
  have i: "intervals ?s = pendingId (pingIntervalId ?s)"
    using t by (simp add: timersOk_def)
  have d: "currentStatus ?s \<noteq> DISCONNECTED"
    using q by (simp add: quietOk_def)
  have a: "currentStatus ?s = IDLE \<longrightarrow> intervals ?s = []"
    using k by (simp add: i keepAliveOk_def)
  have z: "currentStatus ?s = IDLE \<or> currentStatus ?s = CONNECTING \<or> currentStatus ?s = RECONNECTING \<longrightarrow>
        framesSent (effects (step (IntervalFires i) ?s)) = framesSent (effects ?s)"
  proof
    assume "currentStatus ?s = IDLE \<or> currentStatus ?s = CONNECTING \<or> currentStatus ?s = RECONNECTING"
    then consider "currentStatus ?s = IDLE"
      | "currentStatus ?s = CONNECTING \<or> currentStatus ?s = RECONNECTING" by blast
    then show "framesSent (effects (step (IntervalFires i) ?s)) = framesSent (effects ?s)"
    proof cases
      case 1
      then have "intervals ?s = []" using a by simp
      then show ?thesis by (rule tick_idle)
    next
      case 2
      then have "\<not> socketOpen ?s" using q by (simp add: quietOk_def)
      then show ?thesis by (rule tick_quiet)
    qed
  qed
  have b: "currentStatus ?s = CONNECTED \<and> socket ?s \<noteq> None \<longrightarrow> intervals ?s \<noteq> []"
    using k by (auto simp add: i keepAliveOk_def)
  have c: "currentStatus ?s = CONNECTED \<and> socket ?s = Some h \<and> readyState ?s h = WS_OPEN \<longrightarrow>
        (\<exists>j. intervals ?s = [j]
           \<and> framesSent (effects (step (IntervalFires j) ?s)) = framesSent (effects ?s) @ [(h, Ping)])"
  proof
    assume h: "currentStatus ?s = CONNECTED \<and> socket ?s = Some h \<and> readyState ?s h = WS_OPEN"
    then have "pingIntervalId ?s \<noteq> None" using k by (simp add: keepAliveOk_def)
    then obtain j where j: "intervals ?s = [j]" using i by (cases "pingIntervalId ?s") simp_all
    have "framesSent (effects (step (IntervalFires j) ?s)) = framesSent (effects ?s) @ [(h, Ping)]"
      using h j tick_frames [of j ?s] by simp
    then show "\<exists>j. intervals ?s = [j]
           \<and> framesSent (effects (step (IntervalFires j) ?s)) = framesSent (effects ?s) @ [(h, Ping)]"
      using j by blast
  qed
  show ?thesis
    by (intro conjI onSocketOpen_starts onSocketClose_stops disconnect_stops i d a z b c tick_frames)
qed

theorem keepalive_loop_witness:
  "currentStatus (run [Connect Constructed 0 (Some ''t''), SocketOpens 0] init) = CONNECTED
   \<and> socket (run [Connect Constructed 0 (Some ''t''), SocketOpens 0] init) = Some 0
   \<and> intervals (run [Connect Constructed 0 (Some ''t''), SocketOpens 0] init) = [1]
   \<and> readyState (run [Connect Constructed 0 (Some ''t''), SocketOpens 0] init) 0 = WS_OPEN
   \<and> framesSent (effects (step (IntervalFires 1)
        (run [Connect Constructed 0 (Some ''t''), SocketOpens 0] init))) = [(0, Ping)]
   \<and> currentStatus (run [Connect Constructed 0 (Some ''t''), SocketOpens 0,
        SocketCloses 0 \<lparr>code = 1006, reason = []\<rparr> (1/4), Disconnect 0] init) = IDLE
   \<and> intervals (run [Connect Constructed 0 (Some ''t''), SocketOpens 0,
        SocketCloses 0 \<lparr>code = 1006, reason = []\<rparr> (1/4), Disconnect 0] init) = []
   \<and> framesSent (effects (step (IntervalFires 1) (run [Connect Constructed 0 (Some ''t''), SocketOpens 0,
        SocketCloses 0 \<lparr>code = 1006, reason = []\<rparr> (1/4), Disconnect 0] init))) = []
   \<and> currentStatus (run [Connect Constructed 0 (Some ''t''), SocketOpens 0, SocketStartsClosing 0,
        Connect Constructed 0 (Some ''t'')] init) = CONNECTING
   \<and> intervals (run [Connect Constructed 0 (Some ''t''), SocketOpens 0, SocketStartsClosing 0,
        Connect Constructed 0 (Some ''t'')] init) = [1]
   \<and> framesSent (effects (step (IntervalFires 1) (run [Connect Constructed 0 (Some ''t''), SocketOpens 0,
        SocketStartsClosing 0, Connect Constructed 0 (Some ''t'')] init))) = []"
  using keepalive_loop [of "run [Connect Constructed 0 (Some ''t''), SocketOpens 0] init"
      "\<lparr>code = 1006, reason = []\<rparr>" 0 "[Connect Constructed 0 (Some ''t''), SocketOpens 0]" 1 0]
    keepalive_loop [of "run [Connect Constructed 0 (Some ''t''), SocketOpens 0,
        SocketCloses 0 \<lparr>code = 1006, reason = []\<rparr> (1/4), Disconnect 0] init"
      "\<lparr>code = 1006, reason = []\<rparr>" 0 "[Connect Constructed 0 (Some ''t''), SocketOpens 0,
        SocketCloses 0 \<lparr>code = 1006, reason = []\<rparr> (1/4), Disconnect 0]" 1 0]
    keepalive_loop [of "run [Connect Constructed 0 (Some ''t''), SocketOpens 0, SocketStartsClosing 0,
        Connect Constructed 0 (Some ''t'')] init"
      "\<lparr>code = 1006, reason = []\<rparr>" 0 "[Connect Constructed 0 (Some ''t''), SocketOpens 0,
        SocketStartsClosing 0, Connect Constructed 0 (Some ''t'')]" 1 0]
  by (simp add: run_def init_def eval_defs)

section \<open>The HTTP execution bridge: lemmas\<close>

subsection \<open>Form-urlencoded round trip\<close>


lemma splitAll_not_Nil: "splitAll c s \<noteq> []"
  by (induction s) (auto split: list.splits)
















subsection \<open>The headers object\<close>






lemma readLoop_eq:
  "readLoop pf i d cs = (map (StreamChunk i) (decodeChunks pf d cs), decoderAfter pf d cs)"
  by (induction cs arbitrary: d) (simp_all split: prod.splits)

lemma emitted_eq:
  "emitted (handleHttpRequest pf fetch request) =
     (case tryBlock pf (id' request) (fetched pf fetch request) of
        (ms, None) \<Rightarrow> ms
      | (ms, Some e) \<Rightarrow> ms @ [errorMessage (id' request) e])"
  by (simp add: handleHttpRequest_def Let_def fetched_def)

lemma tryBlock_thrown: "snd (tryBlock pf i outcome) = thrownBy outcome"
  by (simp add: tryBlock_def thrownBy_def readLoop_eq
        split: fetch_outcome.splits response_body.splits sum.splits option.splits)

lemma tryBlock_ids: "m \<in> set (fst (tryBlock pf i outcome)) \<Longrightarrow> messageId m = Some i"
  by (auto simp add: tryBlock_def readLoop_eq
        split: fetch_outcome.splits response_body.splits sum.splits option.splits if_splits)

lemma tryBlock_no_error: "filter isErrorMessage (fst (tryBlock pf i outcome)) = []"
  by (auto simp add: tryBlock_def readLoop_eq filter_empty_conv
        split: fetch_outcome.splits response_body.splits sum.splits option.splits)

lemma tryBlock_empty:
  "thrownBy outcome = None \<Longrightarrow> fst (tryBlock pf i outcome) \<noteq> []"
  by (auto simp add: tryBlock_def thrownBy_def readLoop_eq
        split: fetch_outcome.splits response_body.splits sum.splits option.splits)

lemma errorMessage_is_error [simp]:
  "isErrorMessage (errorMessage i e)" "messageId (errorMessage i e) = Some i"
  by (simp_all add: errorMessage_def split: thrown.splits)

lemma emitted_cases:
  "emitted (handleHttpRequest pf fetch request) =
     fst (tryBlock pf (id' request) (fetched pf fetch request))
       @ (case thrownBy (fetched pf fetch request) of
            None \<Rightarrow> [] | Some e \<Rightarrow> [errorMessage (id' request) e])"
  using tryBlock_thrown [of pf "id' request" "fetched pf fetch request"]
  by (cases "tryBlock pf (id' request) (fetched pf fetch request)")
     (simp add: emitted_eq split: option.splits)

lemmas bridge_eval = handleHttpRequest_def Let_def rewriteUrl_def fetchOptions_def tryBlock_def
  errorMessage_def responseHeaders_def browser_def fetched_def thrownBy_def
  utf8DecodeStream_def utf8DecodeFinal_def utf8Output_def utf8Byte_def utf8Lead_def utf8Init_def
  utf8Reset_def plainNewURL_def href_def searchParams_def searchParamsDelete_def
  urlencodedParse_def urlencodedSerialize_def urlencodedEncode_def encodeByte_def
  urlencodedKeeps_def hexDigit_def hexValue_def plusToSpace_def asciiLower_def defaultPort_def
  endsWith_def has_def delete_def char_of_def showNat.simps bit_Suc_0_iff bit_0













section \<open>The HTTP execution bridge: claims\<close>

text \<open>
  Claim C2, as stated, fails: when the transport fails while a streaming body is being
  read, the \<open>stream_start\<close> and the chunks already relayed carry the command's id as
  well, and the error message comes after them.
\<close>

theorem transport_failure_counterexample:
  "thrownBy (fetched browser (networkStreams [[0x61, 0x62]] (Some (JsError ''network error''))) requestR2)
     = Some (JsError ''network error'')
   \<and> emitted (handleHttpRequest browser
        (networkStreams [[0x61, 0x62]] (Some (JsError ''network error''))) requestR2)
     = [StreamStart ''r2'' 200 [], StreamChunk ''r2'' [97, 98],
        ErrorMessage ''r2'' ''FETCH_ERROR'' ''network error'' None]"
  by (simp add: bridge_eval requestR2_def networkStreams_def)

text \<open>
  Claim C2, amended. A message is emitted when the handler hands it to \<open>sendToServer\<close>
  (which drops it when the socket held is not open). Every message an execution emits
  carries the command's id, and at least one is emitted. The error messages emitted are
  exactly one, built from the value thrown, when fetching or reading the response fails,
  and none otherwise; the error message is the last message. When the call of \<open>fetch\<close> itself rejects, the error
  message is the only message. When reading a streaming body fails, the \<open>stream_start\<close>
  and the chunks read so far are followed by the error message and no \<open>stream_end\<close>. A
  thrown \<open>Error\<close> is reported with code \<open>FETCH_ERROR\<close> and its message. Every value
  thrown inside the handler is caught and reported: the handler does not throw.
\<close>

theorem bridge_failure_reporting:
  "(\<forall>m \<in> set (emitted (handleHttpRequest pf fetch request)). messageId m = Some (id' request))
   \<and> emitted (handleHttpRequest pf fetch request) \<noteq> []
   \<and> filter isErrorMessage (emitted (handleHttpRequest pf fetch request))
        = (case thrownBy (fetched pf fetch request) of
             None \<Rightarrow> [] | Some e \<Rightarrow> [errorMessage (id' request) e])
   \<and> (\<forall>e. thrownBy (fetched pf fetch request) = Some e \<longrightarrow>
         last (emitted (handleHttpRequest pf fetch request)) = errorMessage (id' request) e)
   \<and> (\<forall>e. fetched pf fetch request = Rejects e \<longrightarrow>
         emitted (handleHttpRequest pf fetch request) = [errorMessage (id' request) e])
   \<and> (\<forall>response chunks e.
         fetched pf fetch request = Resolves response \<and> responseBody response = Stream chunks (Some e) \<longrightarrow>
         emitted (handleHttpRequest pf fetch request)
           = StreamStart (id' request) (status response) (responseHeaders response)
             # map (StreamChunk (id' request)) (decodeChunks pf (decoderInit pf) chunks)
             @ [errorMessage (id' request) e])
   \<and> (\<forall>msg. errorMessage (id' request) (JsError msg)
         = ErrorMessage (id' request) ''FETCH_ERROR'' msg None)"
proof (intro conjI allI impI ballI)
  fix m assume "m \<in> set (emitted (handleHttpRequest pf fetch request))"
  then show "messageId m = Some (id' request)"
    by (auto simp add: emitted_cases tryBlock_ids split: option.splits)
next
  show "emitted (handleHttpRequest pf fetch request) \<noteq> []"
    using tryBlock_empty [of "fetched pf fetch request" pf "id' request"]
    by (cases "thrownBy (fetched pf fetch request)") (simp_all add: emitted_cases)
next
  show "filter isErrorMessage (emitted (handleHttpRequest pf fetch request))
        = (case thrownBy (fetched pf fetch request) of
             None \<Rightarrow> [] | Some e \<Rightarrow> [errorMessage (id' request) e])"
    by (simp add: emitted_cases tryBlock_no_error split: option.splits)
next
  fix e assume "thrownBy (fetched pf fetch request) = Some e"
  then show "last (emitted (handleHttpRequest pf fetch request)) = errorMessage (id' request) e"
    by (simp add: emitted_cases)
next
  fix e assume "fetched pf fetch request = Rejects e"
  then show "emitted (handleHttpRequest pf fetch request) = [errorMessage (id' request) e]"
    by (simp add: emitted_eq tryBlock_def)
next
  fix response chunks e
  assume "fetched pf fetch request = Resolves response \<and> responseBody response = Stream chunks (Some e)"
  then show "emitted (handleHttpRequest pf fetch request)
           = StreamStart (id' request) (status response) (responseHeaders response)
             # map (StreamChunk (id' request)) (decodeChunks pf (decoderInit pf) chunks)
             @ [errorMessage (id' request) e]"
    by (simp add: emitted_eq tryBlock_def readLoop_eq)
next
  fix msg show "errorMessage (id' request) (JsError msg) = ErrorMessage (id' request) ''FETCH_ERROR'' msg None"
    by (simp add: errorMessage_def)
qed

theorem bridge_failure_reporting_witness:
  "fetched browser networkDown requestR2 = Rejects (JsError ''Failed to fetch'')
   \<and> thrownBy (fetched browser networkDown requestR2) = Some (JsError ''Failed to fetch'')
   \<and> emitted (handleHttpRequest browser networkDown requestR2)
       = [ErrorMessage ''r2'' ''FETCH_ERROR'' ''Failed to fetch'' None]
   \<and> id' requestR2 = ''r2''"
  using bridge_failure_reporting [of browser networkDown requestR2]
  by (simp add: bridge_eval requestR2_def networkDown_def)







end
